theory Spec2Isabelle
  imports Main
begin

section \<open>Syntax tree, spans and edits\<close>

text \<open>
  The codemods work on a syntax tree handed to them by the parser (ast-grep over
  tree-sitter-python) and on the source text of the file. A node carries its identity
  (\<open>id()\<close>), its kind, the field of its parent it sits in (if any), its byte range,
  whether it is a named node, and its children in source order. The text of a node is the
  slice of the source buffer that its range covers.
\<close>

datatype node =
  Node (nid: nat) (kind: string) (field_name: "string option")
       (startIndex: nat) (endIndex: nat) (isNamed: bool) (children: "node list")

record edit =
  startPos :: nat
  endPos :: nat
  insertedText :: string

definition slice :: "string \<Rightarrow> nat \<Rightarrow> nat \<Rightarrow> string" where
  "slice s i j = take (j - i) (drop i s)"

definition text_of :: "string \<Rightarrow> node \<Rightarrow> string" where
  "text_of src n = slice src (startIndex n) (endIndex n)"

text \<open>\<open>node.replace(t)\<close>: an edit over the node's own range.\<close>

definition replace :: "node \<Rightarrow> string \<Rightarrow> edit" where
  "replace n t = \<lparr>startPos = startIndex n, endPos = endIndex n, insertedText = t\<rparr>"

text \<open>\<open>node.field(name)\<close>: the first child that sits in the field, if any.\<close>

definition field :: "node \<Rightarrow> string \<Rightarrow> node option" where
  "field n f = find (\<lambda>c. field_name c = Some f) (children n)"

text \<open>
  \<open>findAll\<close> and \<open>find\<close> walk the node and its descendants depth-first in pre-order
  (the node itself first) and keep the nodes the rule matches.
\<close>

fun dfs :: "node \<Rightarrow> node list" where
  "dfs (Node i k f s e nm cs) = Node i k f s e nm cs # concat (map dfs cs)"

definition findAll :: "(node \<Rightarrow> bool) \<Rightarrow> node \<Rightarrow> node list" where
  "findAll p n = filter p (dfs n)"

definition find_first :: "(node \<Rightarrow> bool) \<Rightarrow> node \<Rightarrow> node option" where
  "find_first p n = find p (dfs n)"

text \<open>
  The relational rule \<open>has: {field, kind, regex}\<close> holds of a node when one of its direct
  children sits in the field, has the kind, and its text matches the regular expression.
  Every regular expression of the codemods is anchored on both sides, so it is modelled as
  a predicate on the whole text of the child.
\<close>

definition has_field_child :: "string \<Rightarrow> string \<Rightarrow> string \<Rightarrow> (string \<Rightarrow> bool) \<Rightarrow> node \<Rightarrow> bool" where
  "has_field_child src f k p n =
     list_ex (\<lambda>c. field_name c = Some f \<and> kind c = k \<and> p (text_of src c)) (children n)"

definition has_child :: "string \<Rightarrow> string \<Rightarrow> (string \<Rightarrow> bool) \<Rightarrow> node \<Rightarrow> bool" where
  "has_child src k p n = list_ex (\<lambda>c. kind c = k \<and> p (text_of src c)) (children n)"

text \<open>\<open>String.prototype.includes\<close> and \<open>startsWith\<close>.\<close>

fun startsWith :: "string \<Rightarrow> string \<Rightarrow> bool" where
  "startsWith s [] = True"
| "startsWith [] (p # ps) = False"
| "startsWith (c # cs) (p # ps) = (c = p \<and> startsWith cs ps)"

fun includes_str :: "string \<Rightarrow> string \<Rightarrow> bool" where
  "includes_str [] p = (p = [])"
| "includes_str (c # cs) p = (startsWith (c # cs) p \<or> includes_str cs p)"

text \<open>\<open>s[i]\<close>: the element at an index, \<open>undefined\<close> outside the string.\<close>

definition charAt :: "'a list \<Rightarrow> nat \<Rightarrow> 'a option" where
  "charAt s i = (if i < length s then Some (s ! i) else None)"

text \<open>
  The offsets of a node are byte offsets into the UTF-8 source, while the text that a
  script gets from \<open>node.text()\<close> is a JavaScript string, a sequence of UTF-16 code
  units. The scripts compare texts with ASCII literals only, and for these the bytes and
  the code units agree, so a text is compared as the bytes of its range. Where a script
  reads a text at an index (\<open>fullText[endPos]\<close>, \<open>fullText.length\<close>) it reads code units:
  a code unit is modelled as the ASCII character it holds, or \<open>None\<close> for any other
  unit. The source is well-formed UTF-8: a byte below \<open>0x80\<close> is one unit, a sequence
  that starts with a byte below \<open>0xE0\<close> has two bytes and one unit, one that starts with a
  byte below \<open>0xF0\<close> has three bytes and one unit, and any other has four bytes and two
  units (a surrogate pair).
\<close>

type_synonym js_string = "char option list"

fun utf16_units :: "string \<Rightarrow> js_string" where
  "utf16_units [] = []"
| "utf16_units (b # bs) =
     (if of_char b < (0x80 :: nat) then Some b # utf16_units bs
      else if of_char b < (0xE0 :: nat) then None # utf16_units (drop 1 bs)
      else if of_char b < (0xF0 :: nat) then None # utf16_units (drop 2 bs)
      else None # None # utf16_units (drop 3 bs))"

section \<open>The committer\<close>

datatype commit_error = Overlap | OutOfBounds

datatype result = Unchanged | Rewritten string | Failed commit_error

text \<open>
  Modelled from the spec: \<open>commitEdits\<close> belongs to the ast-grep library and is not among
  the sources; this is the Committer of section 4.4 of the specification. The edits are
  sorted by start offset (stably), two neighbours that overlap or an edit that leaves the
  buffer are an error, and otherwise the text is rebuilt in one pass: the source up to the
  start of each edit, then the replacement, with the cursor moved to the end of the edit,
  and at last the rest of the source.
\<close>

fun overlapping :: "edit list \<Rightarrow> bool" where
  "overlapping (a # b # es) = (endPos a > startPos b \<or> overlapping (b # es))"
| "overlapping es = False"

fun walk :: "string \<Rightarrow> nat \<Rightarrow> edit list \<Rightarrow> string" where
  "walk src cur [] = drop cur src"
| "walk src cur (e # es) = slice src cur (startPos e) @ insertedText e @ walk src (endPos e) es"

definition commitEdits :: "string \<Rightarrow> edit list \<Rightarrow> commit_error + string" where
  "commitEdits src es =
     (let sorted_es = sort_key startPos es in
      if list_ex (\<lambda>e. endPos e < startPos e \<or> length src < endPos e) sorted_es
        then Inl OutOfBounds
      else if overlapping sorted_es then Inl Overlap
      else Inr (walk src 0 sorted_es))"

text \<open>
  \<open>return rootNode.commitEdits(edits)\<close>: the committed text, or the failure of the
  committer. The sentinel \<open>null\<close> of a \<open>transform\<close> is \<open>Unchanged\<close>.
\<close>

definition commit :: "string \<Rightarrow> edit list \<Rightarrow> result" where
  "commit src es = (case commitEdits src es of Inl err \<Rightarrow> Failed err | Inr t \<Rightarrow> Rewritten t)"

text \<open>What one iteration of a loop over the matches does.\<close>

datatype step = Skip | Warn | Emit edit

section \<open>response-format-tool-strategy\<close>

definition TOOL_STRATEGY_IMPORT :: string where
  "TOOL_STRATEGY_IMPORT = ''from langchain.agents.structured_output import ToolStrategy''"

definition hasToolStrategyImport :: "string \<Rightarrow> node \<Rightarrow> bool" where
  "hasToolStrategyImport src rootNode =
     list_ex (\<lambda>importNode.
        includes_str (text_of src importNode) ''langchain.agents.structured_output'' \<and>
        includes_str (text_of src importNode) ''ToolStrategy'')
       (findAll (\<lambda>n. kind n = ''import_from_statement'') rootNode)"

text \<open>The loop of \<open>findImportInsertPosition\<close>: the largest end offset seen so far.\<close>

fun lastImportEnd_loop :: "nat \<Rightarrow> node list \<Rightarrow> nat" where
  "lastImportEnd_loop lastImportEnd [] = lastImportEnd"
| "lastImportEnd_loop lastImportEnd (imp # imps) =
     lastImportEnd_loop (if endIndex imp > lastImportEnd then endIndex imp else lastImportEnd) imps"

definition findImportInsertPosition :: "node \<Rightarrow> nat" where
  "findImportInsertPosition rootNode =
     (let imports = findAll (\<lambda>n. kind n = ''import_statement'' \<or> kind n = ''import_from_statement'')
                      rootNode
      in if length imports = 0 then 0 else lastImportEnd_loop 0 imports)"

definition isAlreadyWrapped :: "string \<Rightarrow> node \<Rightarrow> bool" where
  "isAlreadyWrapped src n =
     (if kind n \<noteq> ''call'' then False
      else case field n ''function'' of
        None \<Rightarrow> False
      | Some funcNode \<Rightarrow>
          text_of src funcNode = ''ToolStrategy'' \<or> text_of src funcNode = ''ProviderStrategy'')"

definition isTupleForm :: "node \<Rightarrow> bool" where
  "isTupleForm n = (kind n = ''tuple'')"

text \<open>
  The state of the loop over the \<open>create_agent\<close> calls: the edits collected so far, the
  flag \<open>needsImport\<close>, and the number of warnings written to the console. One iteration
  of a loop either skips the call (\<open>continue\<close>), skips it with a warning, or pushes an edit.
\<close>

record rf_state =
  edits :: "edit list"
  needsImport :: bool
  warnings :: nat

text \<open>One iteration of the loop: what the body does with one call.\<close>

definition rf_body :: "string \<Rightarrow> node \<Rightarrow> step" where
  "rf_body src callNode =
     (case field callNode ''arguments'' of
        None \<Rightarrow> Skip
      | Some argsNode \<Rightarrow>
          (case find_first (\<lambda>n. kind n = ''keyword_argument'' \<and>
                                 has_field_child src ''name'' ''identifier''
                                   (\<lambda>t. t = ''response_format'') n) argsNode of
             None \<Rightarrow> Skip
           | Some responseFormatArg \<Rightarrow>
               (case field responseFormatArg ''value'' of
                  None \<Rightarrow> Skip
                | Some valueNode \<Rightarrow>
                    if isTupleForm valueNode then Warn
                    else if isAlreadyWrapped src valueNode then Skip
                    else Emit (replace valueNode
                                 (''ToolStrategy('' @ text_of src valueNode @ '')'')))))"

fun rf_loop :: "string \<Rightarrow> node list \<Rightarrow> rf_state \<Rightarrow> rf_state" where
  "rf_loop src [] st = st"
| "rf_loop src (callNode # calls) st =
     rf_loop src calls
       (case rf_body src callNode of
          Skip \<Rightarrow> st
        | Warn \<Rightarrow> st\<lparr>warnings := Suc (warnings st)\<rparr>
        | Emit e \<Rightarrow> st\<lparr>edits := edits st @ [e], needsImport := True\<rparr>)"

definition createAgentCalls :: "string \<Rightarrow> node \<Rightarrow> node list" where
  "createAgentCalls src rootNode =
     findAll (\<lambda>n. kind n = ''call'' \<and>
                has_field_child src ''function'' ''identifier'' (\<lambda>t. t = ''create_agent'') n)
       rootNode"

text \<open>The edit that adds the import, when the transformation pushes one.\<close>

definition rf_import_edit :: "string \<Rightarrow> node \<Rightarrow> rf_state \<Rightarrow> edit list" where
  "rf_import_edit src rootNode st =
     (if needsImport st \<and> \<not> hasToolStrategyImport src rootNode then
        (let insertPos = findImportInsertPosition rootNode in
         if insertPos = 0
           then [\<lparr>startPos = 0, endPos = 0,
                   insertedText = TOOL_STRATEGY_IMPORT @ [CHR 0x0A, CHR 0x0A]\<rparr>]
           else [\<lparr>startPos = insertPos, endPos = insertPos,
                   insertedText = CHR 0x0A # TOOL_STRATEGY_IMPORT\<rparr>])
      else [])"

definition rf_all_edits :: "string \<Rightarrow> node \<Rightarrow> edit list" where
  "rf_all_edits src rootNode =
     (let st = rf_loop src (createAgentCalls src rootNode)
                 \<lparr>edits = [], needsImport = False, warnings = 0\<rparr>
      in if length (edits st) = 0 then []
         else edits st @ rf_import_edit src rootNode st)"

definition transform_response_format :: "string \<Rightarrow> node \<Rightarrow> result" where
  "transform_response_format src rootNode =
     (let st = rf_loop src (createAgentCalls src rootNode)
                 \<lparr>edits = [], needsImport = False, warnings = 0\<rparr>
      in if length (edits st) = 0 then Unchanged
         else commit src (edits st @ rf_import_edit src rootNode st))"

section \<open>text-method-to-property\<close>

definition textMethodCalls :: "string \<Rightarrow> node \<Rightarrow> node list" where
  "textMethodCalls src rootNode =
     findAll (\<lambda>n. kind n = ''call'' \<and>
                list_ex (\<lambda>c. field_name c = Some ''function'' \<and> kind c = ''attribute'' \<and>
                              has_field_child src ''attribute'' ''identifier''
                                (\<lambda>t. t = ''text'') c)
                  (children n))
       rootNode"

text \<open>One iteration of the loop: the edit pushed for one call, if any.\<close>

definition tm_body :: "string \<Rightarrow> node \<Rightarrow> edit option" where
  "tm_body src callNode =
     (case field callNode ''arguments'' of
        None \<Rightarrow> None
      | Some argsNode \<Rightarrow>
          if length (filter isNamed (children argsNode)) > 0 then None
          else (case field callNode ''function'' of
                  None \<Rightarrow> None
                | Some attrNode \<Rightarrow> Some (replace callNode (text_of src attrNode))))"

fun tm_loop :: "string \<Rightarrow> node list \<Rightarrow> edit list \<Rightarrow> edit list" where
  "tm_loop src [] es = es"
| "tm_loop src (callNode # calls) es =
     tm_loop src calls (case tm_body src callNode of None \<Rightarrow> es | Some e \<Rightarrow> es @ [e])"

definition transform_text_method :: "string \<Rightarrow> node \<Rightarrow> result" where
  "transform_text_method src rootNode =
     (let es = tm_loop src (textMethodCalls src rootNode) [] in
      if length es = 0 then Unchanged else commit src es)"
section \<open>prompt-to-system-prompt\<close>

text \<open>
  \<open>ancestors()\<close>: the nodes above a node, innermost first. The tree has no parent
  pointers, so the walk from the root carries them along.
\<close>

fun dfs_anc :: "node list \<Rightarrow> node \<Rightarrow> (node \<times> node list) list" where
  "dfs_anc anc (Node i k f s e nm cs) =
     (Node i k f s e nm cs, anc) # concat (map (dfs_anc (Node i k f s e nm cs # anc)) cs)"

definition ancestors :: "node \<Rightarrow> node \<Rightarrow> node list" where
  "ancestors rootNode n =
     (case find (\<lambda>(m, anc). nid m = nid n) (dfs_anc [] rootNode) of
        None \<Rightarrow> []
      | Some (m, anc) \<Rightarrow> anc)"

text \<open>
  \<open>funcNode.definition()\<close> is the semantic analysis of the host: it is taken as a
  parameter, a function from a node to the kind of its definition and the node that
  defines it, if it resolves.
\<close>

record resolved =
  def_kind :: string
  def_node :: node

text \<open>
  The check on the module of the call target: the call is left alone when its target
  resolves to an import from a module other than \<open>langchain.agents\<close> and
  \<open>langgraph.prebuilt\<close>.
\<close>

definition fromOtherModule :: "(node \<Rightarrow> resolved option) \<Rightarrow> string \<Rightarrow> node \<Rightarrow> node \<Rightarrow> bool" where
  "fromOtherModule definition_of src rootNode funcNode =
     (case definition_of funcNode of
        None \<Rightarrow> False
      | Some d \<Rightarrow>
          if def_kind d = ''import'' \<or> def_kind d = ''external'' then
            (case find (\<lambda>a. kind a = ''import_from_statement'') (ancestors rootNode (def_node d)) of
               None \<Rightarrow> False
             | Some importStmt \<Rightarrow>
                 (case field importStmt ''module_name'' of
                    None \<Rightarrow> False
                  | Some moduleName \<Rightarrow>
                      \<not> (text_of src moduleName = ''langchain.agents'' \<or>
                         text_of src moduleName = ''langgraph.prebuilt'')))
          else False)"

text \<open>The loop over the keyword arguments of one call: \<open>promptArg\<close> and \<open>hasSystemPrompt\<close>.\<close>

fun ps_scan :: "string \<Rightarrow> node list \<Rightarrow> node option \<times> bool \<Rightarrow> node option \<times> bool" where
  "ps_scan src [] st = st"
| "ps_scan src (kwArg # kwArgs) (promptArg, hasSystemPrompt) =
     ps_scan src kwArgs
       (case field kwArg ''name'' of
          None \<Rightarrow> (promptArg, hasSystemPrompt)
        | Some nameNode \<Rightarrow>
            if text_of src nameNode = ''prompt'' then (Some kwArg, hasSystemPrompt)
            else if text_of src nameNode = ''system_prompt'' then (promptArg, True)
            else (promptArg, hasSystemPrompt))"

text \<open>One iteration of the loop over the calls.\<close>

definition ps_body :: "(node \<Rightarrow> resolved option) \<Rightarrow> string \<Rightarrow> node \<Rightarrow> node \<Rightarrow> step" where
  "ps_body definition_of src rootNode call =
     (case field call ''function'' of
        None \<Rightarrow> Skip
      | Some funcNode \<Rightarrow>
          if fromOtherModule definition_of src rootNode funcNode then Skip
          else (case field call ''arguments'' of
                  None \<Rightarrow> Skip
                | Some argList \<Rightarrow>
                    if kind argList \<noteq> ''argument_list'' then Skip
                    else (case ps_scan src (findAll (\<lambda>n. kind n = ''keyword_argument'') argList)
                                 (None, False) of
                            (None, hasSystemPrompt) \<Rightarrow> Skip
                          | (Some promptArg, hasSystemPrompt) \<Rightarrow>
                              if hasSystemPrompt then Warn
                              else (case field promptArg ''name'' of
                                      None \<Rightarrow> Skip
                                    | Some nameNode \<Rightarrow>
                                        Emit (replace nameNode ''system_prompt'')))))"

fun ps_loop :: "(node \<Rightarrow> resolved option) \<Rightarrow> string \<Rightarrow> node \<Rightarrow> node list \<Rightarrow> edit list \<Rightarrow> edit list" where
  "ps_loop definition_of src rootNode [] es = es"
| "ps_loop definition_of src rootNode (call # calls) es =
     ps_loop definition_of src rootNode calls
       (case ps_body definition_of src rootNode call of
          Emit e \<Rightarrow> es @ [e]
        | _ \<Rightarrow> es)"

definition agentCalls :: "string \<Rightarrow> node \<Rightarrow> node list" where
  "agentCalls src rootNode =
     findAll (\<lambda>n. kind n = ''call'' \<and>
                has_field_child src ''function'' ''identifier''
                  (\<lambda>t. t = ''create_agent'' \<or> t = ''create_react_agent'') n)
       rootNode"

definition ps_edits :: "(node \<Rightarrow> resolved option) \<Rightarrow> string \<Rightarrow> node \<Rightarrow> edit list" where
  "ps_edits definition_of src rootNode =
     ps_loop definition_of src rootNode (agentCalls src rootNode) []"

definition transform_prompt :: "(node \<Rightarrow> resolved option) \<Rightarrow> string \<Rightarrow> node \<Rightarrow> result" where
  "transform_prompt definition_of src rootNode =
     (let es = ps_edits definition_of src rootNode in
      if length es = 0 then Unchanged else commit src es)"

section \<open>unwrap-tool-node-in-agent\<close>

definition isToolNodeCall :: "string \<Rightarrow> node \<Rightarrow> bool" where
  "isToolNodeCall src callNode =
     (case field callNode ''function'' of
        None \<Rightarrow> False
      | Some func \<Rightarrow>
          if kind func = ''identifier'' \<and> text_of src func = ''ToolNode'' then True
          else if kind func = ''attribute'' then
            (case field func ''attribute'' of
               None \<Rightarrow> False
             | Some attrName \<Rightarrow> text_of src attrName = ''ToolNode'')
          else False)"

definition isAgentCreationCall :: "string \<Rightarrow> node \<Rightarrow> bool" where
  "isAgentCreationCall src callNode =
     (case field callNode ''function'' of
        None \<Rightarrow> False
      | Some func \<Rightarrow>
          if kind func = ''identifier'' \<and>
             (text_of src func = ''create_agent'' \<or> text_of src func = ''create_react_agent'')
            then True
          else if kind func = ''attribute'' then
            (case field func ''attribute'' of
               None \<Rightarrow> False
             | Some attrName \<Rightarrow>
                 text_of src attrName = ''create_agent'' \<or>
                 text_of src attrName = ''create_react_agent'')
          else False)"

text \<open>The children of an argument list that are arguments, not punctuation.\<close>

definition actualArguments :: "node \<Rightarrow> node list" where
  "actualArguments argList =
     filter (\<lambda>child. kind child \<noteq> ''('' \<and> kind child \<noteq> '')'' \<and> kind child \<noteq> '','')
       (children argList)"

definition hasSingleArgument :: "node \<Rightarrow> bool" where
  "hasSingleArgument toolNodeCall =
     (case field toolNodeCall ''arguments'' of
        None \<Rightarrow> False
      | Some argList \<Rightarrow>
          (case actualArguments argList of
             [singleArg] \<Rightarrow> kind singleArg \<noteq> ''keyword_argument''
           | _ \<Rightarrow> False))"

definition getSingleArgument :: "node \<Rightarrow> node option" where
  "getSingleArgument toolNodeCall =
     (case field toolNodeCall ''arguments'' of
        None \<Rightarrow> None
      | Some argList \<Rightarrow>
          (case actualArguments argList of
             [singleArg] \<Rightarrow> Some singleArg
           | _ \<Rightarrow> None))"

text \<open>The loop of \<open>findToolsArgWithToolNode\<close>: the first \<open>tools=\<close> argument that qualifies.\<close>

fun toolsArg_loop :: "string \<Rightarrow> node list \<Rightarrow> (node \<times> node) option" where
  "toolsArg_loop src [] = None"
| "toolsArg_loop src (kwArg # kwArgs) =
     (case field kwArg ''value'' of
        None \<Rightarrow> toolsArg_loop src kwArgs
      | Some v \<Rightarrow>
          if kind v \<noteq> ''call'' then toolsArg_loop src kwArgs
          else if isToolNodeCall src v \<and> hasSingleArgument v then Some (kwArg, v)
          else toolsArg_loop src kwArgs)"

definition findToolsArgWithToolNode :: "string \<Rightarrow> node \<Rightarrow> (node \<times> node) option" where
  "findToolsArgWithToolNode src agentCall =
     (case field agentCall ''arguments'' of
        None \<Rightarrow> None
      | Some argList \<Rightarrow>
          toolsArg_loop src
            (findAll (\<lambda>n. kind n = ''keyword_argument'' \<and>
                        has_field_child src ''name'' ''identifier'' (\<lambda>t. t = ''tools'') n)
               argList))"

definition countToolNodeUsages :: "string \<Rightarrow> node \<Rightarrow> nat" where
  "countToolNodeUsages src rootNode =
     length (findAll (\<lambda>n. kind n = ''call'' \<and>
                        has_field_child src ''function'' ''identifier'' (\<lambda>t. t = ''ToolNode'') n)
               rootNode)"

text \<open>
  The imported names of an import statement: its \<open>dotted_name\<close> children after the
  \<open>import\<close> keyword.
\<close>

fun importedNames_loop :: "node list \<Rightarrow> bool \<Rightarrow> node list \<Rightarrow> node list" where
  "importedNames_loop [] foundImportKeyword names = names"
| "importedNames_loop (child # cs) foundImportKeyword names =
     (if kind child = ''import'' then importedNames_loop cs True names
      else if foundImportKeyword \<and> kind child = ''dotted_name''
        then importedNames_loop cs foundImportKeyword (names @ [child])
      else importedNames_loop cs foundImportKeyword names)"

text \<open>
  In the two edits below \<open>fullText\<close> is \<open>rootNode.text()\<close>, the code units of the text of
  the root node, read at the byte offsets of the nodes: index \<open>i\<close> of \<open>fullText\<close> is byte
  \<open>i\<close> of the file only when the root node starts at offset 0 and no character before
  it takes more than one byte. Removing the whole statement: its range and one newline
  after it if there is one, and then a second newline if there is one.
\<close>

definition wholeStatementEdit :: "js_string \<Rightarrow> node \<Rightarrow> edit" where
  "wholeStatementEdit fullText importStmt =
     (let endPos0 = endIndex importStmt;
          endPos1 = (if endPos0 < length fullText \<and> charAt fullText endPos0 = Some (Some (CHR 0x0A))
                       then endPos0 + 1 else endPos0);
          endPos2 = (if endPos0 < length fullText \<and> charAt fullText endPos0 = Some (Some (CHR 0x0A)) \<and>
                        endPos1 < length fullText \<and> charAt fullText endPos1 = Some (Some (CHR 0x0A))
                       then endPos1 + 1 else endPos1)
      in \<lparr>startPos = startIndex importStmt, endPos = endPos2, insertedText = ''''\<rparr>)"

text \<open>The two scans over spaces, backwards from an index (down to \<open>-1\<close>) and forwards.\<close>

function lookBehind_loop :: "js_string \<Rightarrow> int \<Rightarrow> int" where
  "lookBehind_loop fullText i =
     (if i \<ge> 0 \<and> charAt fullText (nat i) = Some (Some (CHR '' ''))
        then lookBehind_loop fullText (i - 1) else i)"
  by pat_completeness auto
termination
  by (relation "measure (\<lambda>(t, i). nat (i + 1))") auto

function lookAhead_loop :: "js_string \<Rightarrow> nat \<Rightarrow> nat" where
  "lookAhead_loop fullText i =
     (if i < length fullText \<and> charAt fullText i = Some (Some (CHR '' ''))
        then lookAhead_loop fullText (i + 1) else i)"
  by pat_completeness auto
termination
  by (relation "measure (\<lambda>(t, i). length t - i)") auto

declare lookBehind_loop.simps [simp del]

declare lookAhead_loop.simps [simp del]

text \<open>
  Removing one name of several: the name with the comma before it (and the spaces
  between), or else with the comma after it and the spaces that follow.
\<close>

definition nameRemovalEdit :: "js_string \<Rightarrow> node \<Rightarrow> edit" where
  "nameRemovalEdit fullText nameNode =
     (let startPos0 = startIndex nameNode;
          endPos0 = endIndex nameNode;
          lookBehind = lookBehind_loop fullText (int startPos0 - 1)
      in if lookBehind \<ge> 0 \<and> charAt fullText (nat lookBehind) = Some (Some (CHR '',''))
           then \<lparr>startPos = nat lookBehind, endPos = endPos0, insertedText = ''''\<rparr>
         else
           (let lookAhead = lookAhead_loop fullText endPos0
            in if lookAhead < length fullText \<and> charAt fullText lookAhead = Some (Some (CHR '',''))
                 then \<lparr>startPos = startPos0, endPos = lookAhead_loop fullText (lookAhead + 1),
                        insertedText = ''''\<rparr>
               else \<lparr>startPos = startPos0, endPos = endPos0, insertedText = ''''\<rparr>))"

text \<open>
  The rule \<open>kind: dotted_name, inside: {kind: import_from_statement, field: module_name}\<close>,
  searched from the import statement: the first \<open>dotted_name\<close> whose parent is an
  \<open>import_from_statement\<close> and that is the parent's \<open>module_name\<close>.
\<close>

definition moduleNameOf :: "node \<Rightarrow> node option" where
  "moduleNameOf importStmt =
     map_option fst
       (find (\<lambda>(n, anc). kind n = ''dotted_name'' \<and>
                (case anc of
                   [] \<Rightarrow> False
                 | parent # rest \<Rightarrow>
                     kind parent = ''import_from_statement'' \<and>
                     (case field parent ''module_name'' of
                        None \<Rightarrow> False
                      | Some m \<Rightarrow> nid m = nid n)))
          (dfs_anc [] importStmt))"

text \<open>The inner loop of \<open>createImportRemovalEdit\<close>, over the names that match.\<close>

fun nameNodes_loop :: "string \<Rightarrow> js_string \<Rightarrow> node \<Rightarrow> node list \<Rightarrow> edit option" where
  "nameNodes_loop src fullText importStmt [] = None"
| "nameNodes_loop src fullText importStmt (nameNode # nameNodes) =
     (if (case moduleNameOf importStmt of None \<Rightarrow> False | Some m \<Rightarrow> nid m = nid nameNode)
        then nameNodes_loop src fullText importStmt nameNodes
      else if length (importedNames_loop (children importStmt) False []) = 1
        then Some (wholeStatementEdit fullText importStmt)
      else (case find_first (\<lambda>n. kind n = ''identifier'' \<and> text_of src n = ''ToolNode'')
                   nameNode of
              None \<Rightarrow> nameNodes_loop src fullText importStmt nameNodes
            | Some toolNodeIdentifier \<Rightarrow> Some (nameRemovalEdit fullText nameNode)))"

text \<open>The outer loop, over the import statements.\<close>

fun imports_loop :: "string \<Rightarrow> js_string \<Rightarrow> node list \<Rightarrow> edit option" where
  "imports_loop src fullText [] = None"
| "imports_loop src fullText (importStmt # imports) =
     (if \<not> includes_str (text_of src importStmt) ''ToolNode''
        then imports_loop src fullText imports
      else (case nameNodes_loop src fullText importStmt
                   (findAll (\<lambda>n. kind n = ''dotted_name'' \<and>
                               has_child src ''identifier'' (\<lambda>t. t = ''ToolNode'') n)
                      importStmt) of
              Some e \<Rightarrow> Some e
            | None \<Rightarrow> imports_loop src fullText imports))"

definition createImportRemovalEdit :: "string \<Rightarrow> node \<Rightarrow> int \<Rightarrow> edit option" where
  "createImportRemovalEdit src rootNode remainingToolNodeUsages =
     (if remainingToolNodeUsages > 0 then None
      else imports_loop src (utf16_units (text_of src rootNode))
             (findAll (\<lambda>n. kind n = ''import_from_statement'') rootNode))"

text \<open>The loop of \<open>transform\<close> over all calls: the edits and the count of unwrapped calls.\<close>

definition un_body :: "string \<Rightarrow> node \<Rightarrow> edit option" where
  "un_body src call =
     (if \<not> isAgentCreationCall src call then None
      else (case findToolsArgWithToolNode src call of
              None \<Rightarrow> None
            | Some (kwArg, toolNodeCall) \<Rightarrow>
                (case getSingleArgument toolNodeCall of
                   None \<Rightarrow> None
                 | Some innerArg \<Rightarrow> Some (replace toolNodeCall (text_of src innerArg)))))"

fun un_loop :: "string \<Rightarrow> node list \<Rightarrow> edit list \<times> nat \<Rightarrow> edit list \<times> nat" where
  "un_loop src [] st = st"
| "un_loop src (call # calls) (es, transformedToolNodeCount) =
     un_loop src calls
       (case un_body src call of
          None \<Rightarrow> (es, transformedToolNodeCount)
        | Some e \<Rightarrow> (es @ [e], transformedToolNodeCount + 1))"

definition un_edits :: "string \<Rightarrow> node \<Rightarrow> edit list" where
  "un_edits src rootNode =
     (case un_loop src (findAll (\<lambda>n. kind n = ''call'') rootNode) ([], 0) of
        (es, transformedToolNodeCount) \<Rightarrow>
          if length es = 0 then []
          else (let totalToolNodeUsages = countToolNodeUsages src rootNode;
                    remainingUsages = int totalToolNodeUsages - int transformedToolNodeCount
                in case createImportRemovalEdit src rootNode remainingUsages of
                     None \<Rightarrow> es
                   | Some importEdit \<Rightarrow> es @ [importEdit]))"

definition transform_unwrap :: "string \<Rightarrow> node \<Rightarrow> result" where
  "transform_unwrap src rootNode =
     (let es = un_edits src rootNode in
      if length es = 0 then Unchanged else commit src es)"

section \<open>system-message-to-prompt: the import edit\<close>

text \<open>
  JavaScript's \<open>\s\<close> and \<open>trim\<close>, on the characters of an ASCII source: space, tab, line
  feed, vertical tab, form feed and carriage return.
\<close>

definition isSpace :: "char \<Rightarrow> bool" where
  "isSpace c \<longleftrightarrow> c = CHR '' '' \<or> c = CHR 0x09 \<or> c = CHR 0x0A \<or> c = CHR 0x0B \<or>
                 c = CHR 0x0C \<or> c = CHR 0x0D"





section \<open>aimessage-example-to-kwargs\<close>

text \<open>\<open>getKeywordArgumentValue\<close>: the child that follows the \<open>=\<close> token.\<close>

fun keywordValue_loop :: "string \<Rightarrow> node list \<Rightarrow> bool \<Rightarrow> node option" where
  "keywordValue_loop src [] foundEquals = None"
| "keywordValue_loop src (child # cs) foundEquals =
     (if foundEquals then Some child
      else keywordValue_loop src cs (text_of src child = ''=''))"

definition getKeywordArgumentValue :: "string \<Rightarrow> node \<Rightarrow> node option" where
  "getKeywordArgumentValue src keywordArg = keywordValue_loop src (children keywordArg) False"

text \<open>\<open>Array.prototype.findIndex\<close> (\<open>-1\<close> when nothing is found) and indexing past the ends.\<close>

fun findIndex :: "('a \<Rightarrow> bool) \<Rightarrow> 'a list \<Rightarrow> int" where
  "findIndex p [] = - 1"
| "findIndex p (x # xs) =
     (if p x then 0 else (let i = findIndex p xs in if i < 0 then - 1 else i + 1))"

definition at_index :: "'a list \<Rightarrow> int \<Rightarrow> 'a option" where
  "at_index xs i = (if 0 \<le> i \<and> i < int (length xs) then Some (xs ! nat i) else None)"

definition removeArgumentWithComma :: "string \<Rightarrow> node \<Rightarrow> node \<Rightarrow> edit" where
  "removeArgumentWithComma src arg argList =
     (let allChildren = children argList;
          argIndex = findIndex (\<lambda>child. nid child = nid arg) allChildren;
          startPos0 = startIndex arg;
          endPos0 = endIndex arg
      in case (case at_index allChildren (argIndex + 1) of
                 None \<Rightarrow> None
               | Some nextChild \<Rightarrow> if text_of src nextChild = '','' then Some nextChild else None) of
           Some nextChild \<Rightarrow>
             (case at_index allChildren (argIndex + 2) of
                None \<Rightarrow> \<lparr>startPos = startPos0, endPos = endIndex nextChild, insertedText = ''''\<rparr>
              | Some afterComma \<Rightarrow>
                  \<lparr>startPos = startPos0, endPos = startIndex afterComma, insertedText = ''''\<rparr>)
         | None \<Rightarrow>
             (case at_index allChildren (argIndex - 1) of
                None \<Rightarrow> \<lparr>startPos = startPos0, endPos = endPos0, insertedText = ''''\<rparr>
              | Some prevChild \<Rightarrow>
                  if text_of src prevChild = '',''
                    then \<lparr>startPos = startIndex prevChild, endPos = endPos0, insertedText = ''''\<rparr>
                  else \<lparr>startPos = startPos0, endPos = endPos0, insertedText = ''''\<rparr>))"

text \<open>\<open>s.slice(1, -1)\<close> and \<open>s.trim()\<close>.\<close>

definition slice_1_m1 :: "string \<Rightarrow> string" where
  "slice_1_m1 s = take (length s - 2) (drop 1 s)"

definition trim :: "string \<Rightarrow> string" where
  "trim s = rev (dropWhile isSpace (rev (dropWhile isSpace s)))"

text \<open>The rule that finds a keyword argument with an identifier child of a given text.\<close>

definition keywordWithIdentifier :: "string \<Rightarrow> string \<Rightarrow> node \<Rightarrow> bool" where
  "keywordWithIdentifier src name n \<longleftrightarrow>
     kind n = ''keyword_argument'' \<and> has_child src ''identifier'' (\<lambda>t. t = name) n"

text \<open>The rule that finds a pair with a string child whose content is \<open>example\<close>.\<close>

definition pairWithExampleString :: "string \<Rightarrow> node \<Rightarrow> bool" where
  "pairWithExampleString src n \<longleftrightarrow>
     kind n = ''pair'' \<and>
     list_ex (\<lambda>c. kind c = ''string'' \<and> has_child src ''string_content'' (\<lambda>t. t = ''example'') c)
       (children n)"

text \<open>The new text of a dictionary literal that takes the entry.\<close>

definition mergedDictText :: "string \<Rightarrow> string \<Rightarrow> string" where
  "mergedDictText dictText exampleValue =
     (let dictContent = trim (slice_1_m1 dictText) in
      if dictContent = ''''
        then ''{'' @ [CHR 0x22] @ ''example'' @ [CHR 0x22] @ '': '' @ exampleValue @ ''}''
      else ''{'' @ [CHR 0x22] @ ''example'' @ [CHR 0x22] @ '': '' @ exampleValue @ '', '' @
           dictContent @ ''}'')"

text \<open>One iteration of the loop over the \<open>AIMessage\<close> calls: the edits it pushes.\<close>

definition am_body :: "string \<Rightarrow> node \<Rightarrow> edit list" where
  "am_body src call =
     (case field call ''arguments'' of
        None \<Rightarrow> []
      | Some argList \<Rightarrow>
     (case find_first (keywordWithIdentifier src ''example'') argList of
        None \<Rightarrow> []
      | Some exampleArg \<Rightarrow>
     (case find_first (\<lambda>n. kind n = ''identifier'' \<and> text_of src n = ''example'') exampleArg of
        None \<Rightarrow> []
      | Some exampleNameNode \<Rightarrow>
     (case getKeywordArgumentValue src exampleArg of
        None \<Rightarrow> []
      | Some exampleValueNode \<Rightarrow>
     (let exampleValue = text_of src exampleValueNode in
      case find_first (keywordWithIdentifier src ''additional_kwargs'') argList of
        Some additionalKwargsArg \<Rightarrow>
          (case getKeywordArgumentValue src additionalKwargsArg of
             None \<Rightarrow> []
           | Some additionalKwargsValue \<Rightarrow>
               if kind additionalKwargsValue = ''dictionary'' then
                 (case find_first (pairWithExampleString src) additionalKwargsValue of
                    Some existingExampleKey \<Rightarrow> []
                  | None \<Rightarrow>
                      [replace additionalKwargsValue
                         (mergedDictText (text_of src additionalKwargsValue) exampleValue),
                       removeArgumentWithComma src exampleArg argList])
               else
                 [replace additionalKwargsValue
                    (''{**'' @ text_of src additionalKwargsValue @ '', '' @ [CHR 0x22] @
                     ''example'' @ [CHR 0x22] @ '': '' @ exampleValue @ ''}''),
                  removeArgumentWithComma src exampleArg argList])
      | None \<Rightarrow>
          [replace exampleArg
             (''additional_kwargs={'' @ [CHR 0x22] @ ''example'' @ [CHR 0x22] @ '': '' @
              exampleValue @ ''}'')])))))"

fun am_loop :: "string \<Rightarrow> node list \<Rightarrow> edit list \<Rightarrow> edit list" where
  "am_loop src [] es = es"
| "am_loop src (call # calls) es = am_loop src calls (es @ am_body src call)"

definition aiMessageCalls :: "string \<Rightarrow> node \<Rightarrow> node list" where
  "aiMessageCalls src rootNode =
     findAll (\<lambda>n. kind n = ''call'' \<and>
                has_field_child src ''function'' ''identifier'' (\<lambda>t. t = ''AIMessage'') n)
       rootNode"

definition transform_aimessage :: "string \<Rightarrow> node \<Rightarrow> result" where
  "transform_aimessage src rootNode =
     (let es = am_loop src (aiMessageCalls src rootNode) [] in
      if length es = 0 then Unchanged else commit src es)"

section \<open>langchain-classic-imports\<close>

text \<open>\<open>node.fieldChildren(name)\<close>: all children in the field.\<close>

definition fieldChildren :: "node \<Rightarrow> string \<Rightarrow> node list" where
  "fieldChildren n f = filter (\<lambda>c. field_name c = Some f) (children n)"

definition isHubImport :: "string \<Rightarrow> node \<Rightarrow> bool" where
  "isHubImport src n =
     (case field n ''module_name'' of
        None \<Rightarrow> False
      | Some moduleNameNode \<Rightarrow>
          if text_of src moduleNameNode \<noteq> ''langchain'' then False
          else list_ex (\<lambda>nameNode. text_of src nameNode = ''hub'' \<or>
                                   startsWith (text_of src nameNode) ''hub '')
                 (fieldChildren n ''name''))"

definition isLegacyModuleImport :: "string \<Rightarrow> node \<Rightarrow> bool" where
  "isLegacyModuleImport src n =
     (case field n ''module_name'' of
        None \<Rightarrow> False
      | Some moduleNameNode \<Rightarrow>
          list_ex (\<lambda>legacyModule.
                     text_of src moduleNameNode = ''langchain.'' @ legacyModule \<or>
                     startsWith (text_of src moduleNameNode) (''langchain.'' @ legacyModule @ ''.''))
            [''retrievers'', ''indexes''])"

definition isAlreadyMigrated :: "string \<Rightarrow> node \<Rightarrow> bool" where
  "isAlreadyMigrated src n =
     (case field n ''module_name'' of
        None \<Rightarrow> False
      | Some moduleNameNode \<Rightarrow>
          startsWith (text_of src moduleNameNode) ''langchain_classic.'' \<or>
          text_of src moduleNameNode = ''langchain_classic'')"

text \<open>\<open>moduleText.replace(/^langchain\./, "langchain_classic.")\<close> and the case of the hub.\<close>

definition finalModuleName :: "string \<Rightarrow> string" where
  "finalModuleName moduleText =
     (let newModuleName =
            (if startsWith moduleText ''langchain.''
               then ''langchain_classic.'' @ drop (length ''langchain.'') moduleText
             else moduleText)
      in if moduleText = ''langchain'' then ''langchain_classic'' else newModuleName)"

definition createImportEdit :: "string \<Rightarrow> node \<Rightarrow> edit option" where
  "createImportEdit src n =
     (case field n ''module_name'' of
        None \<Rightarrow> None
      | Some moduleNameNode \<Rightarrow>
          Some \<lparr>startPos = startIndex moduleNameNode, endPos = endIndex moduleNameNode,
                insertedText = finalModuleName (text_of src moduleNameNode)\<rparr>)"

definition ci_body :: "string \<Rightarrow> node \<Rightarrow> edit option" where
  "ci_body src importNode =
     (if isAlreadyMigrated src importNode then None
      else if isHubImport src importNode \<or> isLegacyModuleImport src importNode
        then createImportEdit src importNode
      else None)"

fun ci_loop :: "string \<Rightarrow> node list \<Rightarrow> edit list \<Rightarrow> edit list" where
  "ci_loop src [] es = es"
| "ci_loop src (importNode # importNodes) es =
     ci_loop src importNodes (case ci_body src importNode of None \<Rightarrow> es | Some e \<Rightarrow> es @ [e])"

definition transform_classic_imports :: "string \<Rightarrow> node \<Rightarrow> result" where
  "transform_classic_imports src rootNode =
     (let es = ci_loop src (findAll (\<lambda>n. kind n = ''import_from_statement'') rootNode) [] in
      if length es = 0 then Unchanged else commit src es)"

section \<open>Notions used in the statements\<close>

text \<open>The edits a loop pushes, read off the steps of its iterations.\<close>

fun emitted :: "step list \<Rightarrow> edit list" where
  "emitted [] = []"
| "emitted (Emit e # ss) = e # emitted ss"
| "emitted (Skip # ss) = emitted ss"
| "emitted (Warn # ss) = emitted ss"

text \<open>
  A keyword argument has the given name; an argument list carries a keyword argument of
  the given name.
\<close>

definition keyword_named :: "string \<Rightarrow> string \<Rightarrow> node \<Rightarrow> bool" where
  "keyword_named src name kwArg =
     (case field kwArg ''name'' of
        None \<Rightarrow> False
      | Some nameNode \<Rightarrow> text_of src nameNode = name)"

definition has_keyword :: "string \<Rightarrow> string \<Rightarrow> node \<Rightarrow> bool" where
  "has_keyword src name argList =
     list_ex (keyword_named src name) (findAll (\<lambda>n. kind n = ''keyword_argument'') argList)"

text \<open>The value of the \<open>response_format\<close> argument that the loop body looks at.\<close>

definition response_format_value :: "string \<Rightarrow> node \<Rightarrow> node option" where
  "response_format_value src callNode =
     (case field callNode ''arguments'' of
        None \<Rightarrow> None
      | Some argsNode \<Rightarrow>
          (case find_first (\<lambda>n. kind n = ''keyword_argument'' \<and>
                                 has_field_child src ''name'' ''identifier''
                                   (\<lambda>t. t = ''response_format'') n) argsNode of
             None \<Rightarrow> None
           | Some responseFormatArg \<Rightarrow> field responseFormatArg ''value''))"

text \<open>The import statements of a file, and the state a loop starts in.\<close>

definition import_statements :: "node \<Rightarrow> node list" where
  "import_statements rootNode =
     findAll (\<lambda>n. kind n = ''import_statement'' \<or> kind n = ''import_from_statement'') rootNode"

definition rf_init :: rf_state where
  "rf_init = \<lparr>edits = [], needsImport = False, warnings = 0\<rparr>"

text \<open>The range of a node lies within the range of another.\<close>

definition within :: "node \<Rightarrow> node \<Rightarrow> bool" where
  "within c n \<longleftrightarrow> startIndex n \<le> startIndex c \<and> startIndex c \<le> endIndex c \<and> endIndex c \<le> endIndex n"

text \<open>
  Edits in order from a cursor: each starts at or after the cursor, does not end before
  it starts, and the next ones follow its end.
\<close>

fun chain :: "nat \<Rightarrow> edit list \<Rightarrow> bool" where
  "chain cur [] = True"
| "chain cur (e # es) = (cur \<le> startPos e \<and> startPos e \<le> endPos e \<and> chain (endPos e) es)"

text \<open>The identifiers of a given name that are not inside an import statement.\<close>

definition occurrences_outside_imports :: "string \<Rightarrow> node \<Rightarrow> string \<Rightarrow> node list" where
  "occurrences_outside_imports src rootNode name =
     map fst
       (filter (\<lambda>(n, anc). kind n = ''identifier'' \<and> text_of src n = name \<and>
                  \<not> list_ex (\<lambda>a. kind a = ''import_from_statement'' \<or>
                                  kind a = ''import_statement'') anc)
          (dfs_anc [] rootNode))"

text \<open>The number of line feeds at an offset of a text, up to a bound.\<close>

definition newlines_at :: "string \<Rightarrow> nat \<Rightarrow> nat \<Rightarrow> nat" where
  "newlines_at s i bound =
     (if bound \<ge> 1 \<and> charAt s i = Some (CHR 0x0A) then
        (if bound \<ge> 2 \<and> charAt s (i + 1) = Some (CHR 0x0A) then 2 else 1)
      else 0)"

text \<open>
  A dictionary literal has an entry whose key is the string literal of the given
  content.
\<close>

definition dict_has_key :: "string \<Rightarrow> node \<Rightarrow> string \<Rightarrow> bool" where
  "dict_has_key src d k =
     list_ex (\<lambda>p. kind p = ''pair'' \<and>
                (case field p ''key'' of
                   None \<Rightarrow> False
                 | Some s \<Rightarrow> kind s = ''string'' \<and>
                     has_child src ''string_content'' (\<lambda>t. t = k) s))
       (children d)"


fun items :: "string \<Rightarrow> nat \<Rightarrow> node list \<Rightarrow> (string \<times> string) list" where
  "items src p [] = []"
| "items src p (c # cs) = (slice src p (startIndex c), text_of src c) # items src (endIndex c) cs"

fun end_of :: "nat \<Rightarrow> node list \<Rightarrow> nat" where
  "end_of p [] = p"
| "end_of p (c # cs) = end_of (endIndex c) cs"



text \<open>
  A source of ASCII characters only. In such a source every byte is one code unit, so
  that a byte offset is also an index of the JavaScript string.
\<close>

definition is_ascii :: "string \<Rightarrow> bool" where
  "is_ascii s \<longleftrightarrow> list_all (\<lambda>b. of_char b < (0x80 :: nat)) s"



text \<open>
  What a second pass sees. A second pass runs on the text that the first pass returned,
  parsed anew, and the parser is not among the sources. The relations below say what
  the second tree is taken to be, site by site. Its sites are those of the first tree,
  in the same order. A site that the first pass rewrote holds the text that the edit
  inserted: for a \<open>response_format\<close> value, parsed as a call whose function is the name
  of twelve characters at its start; for an import, as the module name. A site that the
  first pass left alone is parsed as before: the value has the kind it had and the
  function it had, the import has the module name and the imported names it had.
\<close>

definition rf_site_rewritten :: "edit \<Rightarrow> string \<Rightarrow> node \<Rightarrow> bool" where
  "rf_site_rewritten e src' callNode' \<longleftrightarrow>
     (case response_format_value src' callNode' of
        None \<Rightarrow> False
      | Some valueNode' \<Rightarrow>
          kind valueNode' = ''call'' \<and> text_of src' valueNode' = insertedText e \<and>
          (case field valueNode' ''function'' of
             None \<Rightarrow> False
           | Some funcNode' \<Rightarrow>
               startIndex funcNode' = startIndex valueNode' \<and>
               endIndex funcNode' = startIndex valueNode' + length ''ToolStrategy''))"

definition rf_site_kept :: "string \<Rightarrow> node \<Rightarrow> string \<Rightarrow> node \<Rightarrow> bool" where
  "rf_site_kept src callNode src' callNode' \<longleftrightarrow>
     (case response_format_value src callNode of
        None \<Rightarrow> response_format_value src' callNode' = None
      | Some valueNode \<Rightarrow>
          (case response_format_value src' callNode' of
             None \<Rightarrow> False
           | Some valueNode' \<Rightarrow>
               kind valueNode' = kind valueNode \<and>
               map_option (text_of src') (field valueNode' ''function'') =
               map_option (text_of src) (field valueNode ''function'')))"

definition rf_second_parse :: "string \<Rightarrow> node \<Rightarrow> string \<Rightarrow> node \<Rightarrow> bool" where
  "rf_second_parse src rootNode src' rootNode' \<longleftrightarrow>
     list_all2 (\<lambda>callNode callNode'.
                  case rf_body src callNode of
                    Emit e \<Rightarrow> rf_site_rewritten e src' callNode'
                  | Skip \<Rightarrow> rf_site_kept src callNode src' callNode'
                  | Warn \<Rightarrow> rf_site_kept src callNode src' callNode')
       (createAgentCalls src rootNode) (createAgentCalls src' rootNode')"

definition ci_site_rewritten :: "edit \<Rightarrow> string \<Rightarrow> node \<Rightarrow> bool" where
  "ci_site_rewritten e src' importNode' \<longleftrightarrow>
     (case field importNode' ''module_name'' of
        None \<Rightarrow> False
      | Some moduleNameNode' \<Rightarrow> text_of src' moduleNameNode' = insertedText e)"

definition ci_site_kept :: "string \<Rightarrow> node \<Rightarrow> string \<Rightarrow> node \<Rightarrow> bool" where
  "ci_site_kept src importNode src' importNode' \<longleftrightarrow>
     map_option (text_of src') (field importNode' ''module_name'') =
     map_option (text_of src) (field importNode ''module_name'') \<and>
     map (text_of src') (fieldChildren importNode' ''name'') =
     map (text_of src) (fieldChildren importNode ''name'')"

definition ci_second_parse :: "string \<Rightarrow> node \<Rightarrow> string \<Rightarrow> node \<Rightarrow> bool" where
  "ci_second_parse src rootNode src' rootNode' \<longleftrightarrow>
     list_all2 (\<lambda>importNode importNode'.
                  case ci_body src importNode of
                    Some e \<Rightarrow> ci_site_rewritten e src' importNode'
                  | None \<Rightarrow> ci_site_kept src importNode src' importNode')
       (findAll (\<lambda>n. kind n = ''import_from_statement'') rootNode)
       (findAll (\<lambda>n. kind n = ''import_from_statement'') rootNode')"

section \<open>Sample files\<close>

text \<open>
  Small Python files with their syntax trees, as tree-sitter-python parses them; the
  theorems below are run on them.
\<close>

text \<open>A call whose \<open>response_format\<close> is wrapped already.\<close>

definition wrapped_src :: string where
  "wrapped_src = ''agent = create_agent(m, response_format=ToolStrategy(S))'' @ [CHR 0x0A]"

definition wrapped_tree :: node where
  "wrapped_tree =
    Node 0 ''module'' None 0 57 True [
      Node 1 ''expression_statement'' None 0 56 True [
        Node 2 ''assignment'' None 0 56 True [
          Node 3 ''identifier'' (Some ''left'') 0 5 True [],
          Node 4 ''='' None 6 7 False [],
          Node 5 ''call'' (Some ''right'') 8 56 True [
            Node 6 ''identifier'' (Some ''function'') 8 20 True [],
            Node 7 ''argument_list'' (Some ''arguments'') 20 56 True [
              Node 8 ''('' None 20 21 False [],
              Node 9 ''identifier'' None 21 22 True [],
              Node 10 '','' None 22 23 False [],
              Node 11 ''keyword_argument'' None 24 55 True [
                Node 12 ''identifier'' (Some ''name'') 24 39 True [],
                Node 13 ''='' None 39 40 False [],
                Node 14 ''call'' (Some ''value'') 40 55 True [
                  Node 15 ''identifier'' (Some ''function'') 40 52 True [],
                  Node 16 ''argument_list'' (Some ''arguments'') 52 55 True [
                    Node 17 ''('' None 52 53 False [],
                    Node 18 ''identifier'' None 53 54 True [],
                    Node 19 '')'' None 54 55 False []]]],
              Node 20 '')'' None 55 56 False []]]]]]"

text \<open>A call of \<open>text\<close> with an argument.\<close>

definition text_arg_src :: string where
  "text_arg_src = ''y = r.text(1)'' @ [CHR 0x0A]"

definition text_arg_tree :: node where
  "text_arg_tree =
    Node 0 ''module'' None 0 14 True [
      Node 1 ''expression_statement'' None 0 13 True [
        Node 2 ''assignment'' None 0 13 True [
          Node 3 ''identifier'' (Some ''left'') 0 1 True [],
          Node 4 ''='' None 2 3 False [],
          Node 5 ''call'' (Some ''right'') 4 13 True [
            Node 6 ''attribute'' (Some ''function'') 4 10 True [
              Node 7 ''identifier'' (Some ''object'') 4 5 True [],
              Node 8 ''.'' None 5 6 False [],
              Node 9 ''identifier'' (Some ''attribute'') 6 10 True []],
            Node 10 ''argument_list'' (Some ''arguments'') 10 13 True [
              Node 11 ''('' None 10 11 False [],
              Node 12 ''integer'' None 11 12 True [],
              Node 13 '')'' None 12 13 False []]]]]]"

text \<open>A tuple-shaped \<open>response_format\<close> next to a plain one, after an import.\<close>

definition tuple_and_plain_src :: string where
  "tuple_and_plain_src = ''import os'' @ [CHR 0x0A] @ ''a = create_agent(m, response_format=(p, S))'' @ [CHR 0x0A] @ ''b = create_agent(m, response_format=S)'' @ [CHR 0x0A]"

definition tuple_and_plain_tree :: node where
  "tuple_and_plain_tree =
    Node 0 ''module'' None 0 93 True [
      Node 1 ''import_statement'' None 0 9 True [
        Node 2 ''import'' None 0 6 False [],
        Node 3 ''dotted_name'' (Some ''name'') 7 9 True [
          Node 4 ''identifier'' None 7 9 True []]],
      Node 5 ''expression_statement'' None 10 53 True [
        Node 6 ''assignment'' None 10 53 True [
          Node 7 ''identifier'' (Some ''left'') 10 11 True [],
          Node 8 ''='' None 12 13 False [],
          Node 9 ''call'' (Some ''right'') 14 53 True [
            Node 10 ''identifier'' (Some ''function'') 14 26 True [],
            Node 11 ''argument_list'' (Some ''arguments'') 26 53 True [
              Node 12 ''('' None 26 27 False [],
              Node 13 ''identifier'' None 27 28 True [],
              Node 14 '','' None 28 29 False [],
              Node 15 ''keyword_argument'' None 30 52 True [
                Node 16 ''identifier'' (Some ''name'') 30 45 True [],
                Node 17 ''='' None 45 46 False [],
                Node 18 ''tuple'' (Some ''value'') 46 52 True [
                  Node 19 ''('' None 46 47 False [],
                  Node 20 ''identifier'' None 47 48 True [],
                  Node 21 '','' None 48 49 False [],
                  Node 22 ''identifier'' None 50 51 True [],
                  Node 23 '')'' None 51 52 False []]],
              Node 24 '')'' None 52 53 False []]]]],
      Node 25 ''expression_statement'' None 54 92 True [
        Node 26 ''assignment'' None 54 92 True [
          Node 27 ''identifier'' (Some ''left'') 54 55 True [],
          Node 28 ''='' None 56 57 False [],
          Node 29 ''call'' (Some ''right'') 58 92 True [
            Node 30 ''identifier'' (Some ''function'') 58 70 True [],
            Node 31 ''argument_list'' (Some ''arguments'') 70 92 True [
              Node 32 ''('' None 70 71 False [],
              Node 33 ''identifier'' None 71 72 True [],
              Node 34 '','' None 72 73 False [],
              Node 35 ''keyword_argument'' None 74 91 True [
                Node 36 ''identifier'' (Some ''name'') 74 89 True [],
                Node 37 ''='' None 89 90 False [],
                Node 38 ''identifier'' (Some ''value'') 90 91 True []],
              Node 39 '')'' None 91 92 False []]]]]]"

text \<open>A call with both \<open>prompt\<close> and \<open>system_prompt\<close>, and a call with \<open>prompt\<close> alone.\<close>

definition both_prompts_src :: string where
  "both_prompts_src = ''a = create_agent(m, prompt=p, system_prompt=q)'' @ [CHR 0x0A] @ ''b = create_agent(m, prompt=p)'' @ [CHR 0x0A]"

definition both_prompts_tree :: node where
  "both_prompts_tree =
    Node 0 ''module'' None 0 77 True [
      Node 1 ''expression_statement'' None 0 46 True [
        Node 2 ''assignment'' None 0 46 True [
          Node 3 ''identifier'' (Some ''left'') 0 1 True [],
          Node 4 ''='' None 2 3 False [],
          Node 5 ''call'' (Some ''right'') 4 46 True [
            Node 6 ''identifier'' (Some ''function'') 4 16 True [],
            Node 7 ''argument_list'' (Some ''arguments'') 16 46 True [
              Node 8 ''('' None 16 17 False [],
              Node 9 ''identifier'' None 17 18 True [],
              Node 10 '','' None 18 19 False [],
              Node 11 ''keyword_argument'' None 20 28 True [
                Node 12 ''identifier'' (Some ''name'') 20 26 True [],
                Node 13 ''='' None 26 27 False [],
                Node 14 ''identifier'' (Some ''value'') 27 28 True []],
              Node 15 '','' None 28 29 False [],
              Node 16 ''keyword_argument'' None 30 45 True [
                Node 17 ''identifier'' (Some ''name'') 30 43 True [],
                Node 18 ''='' None 43 44 False [],
                Node 19 ''identifier'' (Some ''value'') 44 45 True []],
              Node 20 '')'' None 45 46 False []]]]],
      Node 21 ''expression_statement'' None 47 76 True [
        Node 22 ''assignment'' None 47 76 True [
          Node 23 ''identifier'' (Some ''left'') 47 48 True [],
          Node 24 ''='' None 49 50 False [],
          Node 25 ''call'' (Some ''right'') 51 76 True [
            Node 26 ''identifier'' (Some ''function'') 51 63 True [],
            Node 27 ''argument_list'' (Some ''arguments'') 63 76 True [
              Node 28 ''('' None 63 64 False [],
              Node 29 ''identifier'' None 64 65 True [],
              Node 30 '','' None 65 66 False [],
              Node 31 ''keyword_argument'' None 67 75 True [
                Node 32 ''identifier'' (Some ''name'') 67 73 True [],
                Node 33 ''='' None 73 74 False [],
                Node 34 ''identifier'' (Some ''value'') 74 75 True []],
              Node 35 '')'' None 75 76 False []]]]]]"

text \<open>A plain \<open>response_format\<close> in a file that imports \<open>ToolStrategy\<close> already.\<close>

definition has_import_src :: string where
  "has_import_src = ''from langchain.agents.structured_output import ToolStrategy'' @ [CHR 0x0A] @ ''a = create_agent(m, response_format=S)'' @ [CHR 0x0A]"

definition has_import_tree :: node where
  "has_import_tree =
    Node 0 ''module'' None 0 99 True [
      Node 1 ''import_from_statement'' None 0 59 True [
        Node 2 ''from'' None 0 4 False [],
        Node 3 ''dotted_name'' (Some ''module_name'') 5 39 True [
          Node 4 ''identifier'' None 5 14 True [],
          Node 5 ''.'' None 14 15 False [],
          Node 6 ''identifier'' None 15 21 True [],
          Node 7 ''.'' None 21 22 False [],
          Node 8 ''identifier'' None 22 39 True []],
        Node 9 ''import'' None 40 46 False [],
        Node 10 ''dotted_name'' (Some ''name'') 47 59 True [
          Node 11 ''identifier'' None 47 59 True []]],
      Node 12 ''expression_statement'' None 60 98 True [
        Node 13 ''assignment'' None 60 98 True [
          Node 14 ''identifier'' (Some ''left'') 60 61 True [],
          Node 15 ''='' None 62 63 False [],
          Node 16 ''call'' (Some ''right'') 64 98 True [
            Node 17 ''identifier'' (Some ''function'') 64 76 True [],
            Node 18 ''argument_list'' (Some ''arguments'') 76 98 True [
              Node 19 ''('' None 76 77 False [],
              Node 20 ''identifier'' None 77 78 True [],
              Node 21 '','' None 78 79 False [],
              Node 22 ''keyword_argument'' None 80 97 True [
                Node 23 ''identifier'' (Some ''name'') 80 95 True [],
                Node 24 ''='' None 95 96 False [],
                Node 25 ''identifier'' (Some ''value'') 96 97 True []],
              Node 26 '')'' None 97 98 False []]]]]]"

text \<open>The second file after the keyword of its second call is renamed.\<close>

definition both_prompts_out :: string where
  "both_prompts_out = ''a = create_agent(m, prompt=p, system_prompt=q)'' @ [CHR 0x0A] @ ''b = create_agent(m, system_prompt=p)'' @ [CHR 0x0A]"




text \<open>\<open>ToolNode\<close> wrapped in one call and named once more, outside a call of it.\<close>

definition still_used_src :: string where
  "still_used_src = ''from langgraph.prebuilt import ToolNode'' @ [CHR 0x0A] @ ''agent = create_agent(m, tools=ToolNode(t))'' @ [CHR 0x0A] @ ''ok = isinstance(n, ToolNode)'' @ [CHR 0x0A]"

definition still_used_tree :: node where
  "still_used_tree =
    Node 0 ''module'' None 0 112 True [
      Node 1 ''import_from_statement'' None 0 39 True [
        Node 2 ''from'' None 0 4 False [],
        Node 3 ''dotted_name'' (Some ''module_name'') 5 23 True [
          Node 4 ''identifier'' None 5 14 True [],
          Node 5 ''.'' None 14 15 False [],
          Node 6 ''identifier'' None 15 23 True []],
        Node 7 ''import'' None 24 30 False [],
        Node 8 ''dotted_name'' (Some ''name'') 31 39 True [
          Node 9 ''identifier'' None 31 39 True []]],
      Node 10 ''expression_statement'' None 40 82 True [
        Node 11 ''assignment'' None 40 82 True [
          Node 12 ''identifier'' (Some ''left'') 40 45 True [],
          Node 13 ''='' None 46 47 False [],
          Node 14 ''call'' (Some ''right'') 48 82 True [
            Node 15 ''identifier'' (Some ''function'') 48 60 True [],
            Node 16 ''argument_list'' (Some ''arguments'') 60 82 True [
              Node 17 ''('' None 60 61 False [],
              Node 18 ''identifier'' None 61 62 True [],
              Node 19 '','' None 62 63 False [],
              Node 20 ''keyword_argument'' None 64 81 True [
                Node 21 ''identifier'' (Some ''name'') 64 69 True [],
                Node 22 ''='' None 69 70 False [],
                Node 23 ''call'' (Some ''value'') 70 81 True [
                  Node 24 ''identifier'' (Some ''function'') 70 78 True [],
                  Node 25 ''argument_list'' (Some ''arguments'') 78 81 True [
                    Node 26 ''('' None 78 79 False [],
                    Node 27 ''identifier'' None 79 80 True [],
                    Node 28 '')'' None 80 81 False []]]],
              Node 29 '')'' None 81 82 False []]]]],
      Node 30 ''expression_statement'' None 83 111 True [
        Node 31 ''assignment'' None 83 111 True [
          Node 32 ''identifier'' (Some ''left'') 83 85 True [],
          Node 33 ''='' None 86 87 False [],
          Node 34 ''call'' (Some ''right'') 88 111 True [
            Node 35 ''identifier'' (Some ''function'') 88 98 True [],
            Node 36 ''argument_list'' (Some ''arguments'') 98 111 True [
              Node 37 ''('' None 98 99 False [],
              Node 38 ''identifier'' None 99 100 True [],
              Node 39 '','' None 100 101 False [],
              Node 40 ''identifier'' None 102 110 True [],
              Node 41 '')'' None 110 111 False []]]]]]"

text \<open>The file after the pass: the import is gone, the name is still used.\<close>

definition still_used_out :: string where
  "still_used_out = ''agent = create_agent(m, tools=t)'' @ [CHR 0x0A] @ ''ok = isinstance(n, ToolNode)'' @ [CHR 0x0A]"

text \<open>An \<open>AIMessage\<close> whose \<open>additional_kwargs\<close> has the key \<open>example\<close> already.\<close>

definition key_present_src :: string where
  "key_present_src = ''msg = AIMessage(content=c, example=True, additional_kwargs={'' @ [CHR 0x22] @ ''example'' @ [CHR 0x22] @ '': 1})'' @ [CHR 0x0A]"

definition key_present_tree :: node where
  "key_present_tree =
    Node 0 ''module'' None 0 75 True [
      Node 1 ''expression_statement'' None 0 74 True [
        Node 2 ''assignment'' None 0 74 True [
          Node 3 ''identifier'' (Some ''left'') 0 3 True [],
          Node 4 ''='' None 4 5 False [],
          Node 5 ''call'' (Some ''right'') 6 74 True [
            Node 6 ''identifier'' (Some ''function'') 6 15 True [],
            Node 7 ''argument_list'' (Some ''arguments'') 15 74 True [
              Node 8 ''('' None 15 16 False [],
              Node 9 ''keyword_argument'' None 16 25 True [
                Node 10 ''identifier'' (Some ''name'') 16 23 True [],
                Node 11 ''='' None 23 24 False [],
                Node 12 ''identifier'' (Some ''value'') 24 25 True []],
              Node 13 '','' None 25 26 False [],
              Node 14 ''keyword_argument'' None 27 39 True [
                Node 15 ''identifier'' (Some ''name'') 27 34 True [],
                Node 16 ''='' None 34 35 False [],
                Node 17 ''true'' (Some ''value'') 35 39 True []],
              Node 18 '','' None 39 40 False [],
              Node 19 ''keyword_argument'' None 41 73 True [
                Node 20 ''identifier'' (Some ''name'') 41 58 True [],
                Node 21 ''='' None 58 59 False [],
                Node 22 ''dictionary'' (Some ''value'') 59 73 True [
                  Node 23 ''{'' None 59 60 False [],
                  Node 24 ''pair'' None 60 72 True [
                    Node 25 ''string'' (Some ''key'') 60 69 True [
                      Node 26 ''string_start'' None 60 61 True [],
                      Node 27 ''string_content'' None 61 68 True [],
                      Node 28 ''string_end'' None 68 69 True []],
                    Node 29 '':'' None 69 70 False [],
                    Node 30 ''integer'' (Some ''value'') 71 72 True []],
                  Node 31 ''}'' None 72 73 False []]],
              Node 32 '')'' None 73 74 False []]]]]]"



text \<open>The file after the entry is merged and the argument removed.\<close>

definition key_absent_out :: string where
  "key_absent_out = ''msg = AIMessage(content=c, additional_kwargs={'' @ [CHR 0x22] @ ''example'' @ [CHR 0x22] @ '': True, '' @ [CHR 0x22] @ ''foo'' @ [CHR 0x22] @ '': 1})'' @ [CHR 0x0A]"

text \<open>The result of \<open>text()\<close> called again.\<close>

definition text_twice_src :: string where
  "text_twice_src = ''a.text()()'' @ [CHR 0x0A]"

definition text_twice_tree :: node where
  "text_twice_tree =
    Node 0 ''module'' None 0 11 True [
      Node 1 ''expression_statement'' None 0 10 True [
        Node 2 ''call'' None 0 10 True [
          Node 3 ''call'' (Some ''function'') 0 8 True [
            Node 4 ''attribute'' (Some ''function'') 0 6 True [
              Node 5 ''identifier'' (Some ''object'') 0 1 True [],
              Node 6 ''.'' None 1 2 False [],
              Node 7 ''identifier'' (Some ''attribute'') 2 6 True []],
            Node 8 ''argument_list'' (Some ''arguments'') 6 8 True [
              Node 9 ''('' None 6 7 False [],
              Node 10 '')'' None 7 8 False []]],
          Node 11 ''argument_list'' (Some ''arguments'') 8 10 True [
            Node 12 ''('' None 8 9 False [],
            Node 13 '')'' None 9 10 False []]]]]"

text \<open>The same file after one pass of text-method-to-property.\<close>

definition text_once_src :: string where
  "text_once_src = ''a.text()'' @ [CHR 0x0A]"

definition text_once_tree :: node where
  "text_once_tree =
    Node 0 ''module'' None 0 9 True [
      Node 1 ''expression_statement'' None 0 8 True [
        Node 2 ''call'' None 0 8 True [
          Node 3 ''attribute'' (Some ''function'') 0 6 True [
            Node 4 ''identifier'' (Some ''object'') 0 1 True [],
            Node 5 ''.'' None 1 2 False [],
            Node 6 ''identifier'' (Some ''attribute'') 2 6 True []],
          Node 7 ''argument_list'' (Some ''arguments'') 6 8 True [
            Node 8 ''('' None 6 7 False [],
            Node 9 '')'' None 7 8 False []]]]]"

text \<open>The same file after a second pass.\<close>

definition text_none :: string where
  "text_none = ''a.text'' @ [CHR 0x0A]"

text \<open>A plain \<open>response_format\<close> in a file without imports.\<close>

definition rf_plain_src :: string where
  "rf_plain_src = ''agent = create_agent(m, response_format=S)'' @ [CHR 0x0A]"

definition rf_plain_tree :: node where
  "rf_plain_tree =
    Node 0 ''module'' None 0 43 True [
      Node 1 ''expression_statement'' None 0 42 True [
        Node 2 ''assignment'' None 0 42 True [
          Node 3 ''identifier'' (Some ''left'') 0 5 True [],
          Node 4 ''='' None 6 7 False [],
          Node 5 ''call'' (Some ''right'') 8 42 True [
            Node 6 ''identifier'' (Some ''function'') 8 20 True [],
            Node 7 ''argument_list'' (Some ''arguments'') 20 42 True [
              Node 8 ''('' None 20 21 False [],
              Node 9 ''identifier'' None 21 22 True [],
              Node 10 '','' None 22 23 False [],
              Node 11 ''keyword_argument'' None 24 41 True [
                Node 12 ''identifier'' (Some ''name'') 24 39 True [],
                Node 13 ''='' None 39 40 False [],
                Node 14 ''identifier'' (Some ''value'') 40 41 True []],
              Node 15 '')'' None 41 42 False []]]]]]"

text \<open>The same file after one pass of response-format-tool-strategy.\<close>

definition rf_done_src :: string where
  "rf_done_src = ''from langchain.agents.structured_output import ToolStrategy'' @ [CHR 0x0A] @ [CHR 0x0A] @ ''agent = create_agent(m, response_format=ToolStrategy(S))'' @ [CHR 0x0A]"

definition rf_done_tree :: node where
  "rf_done_tree =
    Node 0 ''module'' None 0 118 True [
      Node 1 ''import_from_statement'' None 0 59 True [
        Node 2 ''from'' None 0 4 False [],
        Node 3 ''dotted_name'' (Some ''module_name'') 5 39 True [
          Node 4 ''identifier'' None 5 14 True [],
          Node 5 ''.'' None 14 15 False [],
          Node 6 ''identifier'' None 15 21 True [],
          Node 7 ''.'' None 21 22 False [],
          Node 8 ''identifier'' None 22 39 True []],
        Node 9 ''import'' None 40 46 False [],
        Node 10 ''dotted_name'' (Some ''name'') 47 59 True [
          Node 11 ''identifier'' None 47 59 True []]],
      Node 12 ''expression_statement'' None 61 117 True [
        Node 13 ''assignment'' None 61 117 True [
          Node 14 ''identifier'' (Some ''left'') 61 66 True [],
          Node 15 ''='' None 67 68 False [],
          Node 16 ''call'' (Some ''right'') 69 117 True [
            Node 17 ''identifier'' (Some ''function'') 69 81 True [],
            Node 18 ''argument_list'' (Some ''arguments'') 81 117 True [
              Node 19 ''('' None 81 82 False [],
              Node 20 ''identifier'' None 82 83 True [],
              Node 21 '','' None 83 84 False [],
              Node 22 ''keyword_argument'' None 85 116 True [
                Node 23 ''identifier'' (Some ''name'') 85 100 True [],
                Node 24 ''='' None 100 101 False [],
                Node 25 ''call'' (Some ''value'') 101 116 True [
                  Node 26 ''identifier'' (Some ''function'') 101 113 True [],
                  Node 27 ''argument_list'' (Some ''arguments'') 113 116 True [
                    Node 28 ''('' None 113 114 False [],
                    Node 29 ''identifier'' None 114 115 True [],
                    Node 30 '')'' None 115 116 False []]]],
              Node 31 '')'' None 116 117 False []]]]]]"

text \<open>An import from a legacy module.\<close>

definition legacy_src :: string where
  "legacy_src = ''from langchain.retrievers import R'' @ [CHR 0x0A]"

definition legacy_tree :: node where
  "legacy_tree =
    Node 0 ''module'' None 0 35 True [
      Node 1 ''import_from_statement'' None 0 34 True [
        Node 2 ''from'' None 0 4 False [],
        Node 3 ''dotted_name'' (Some ''module_name'') 5 25 True [
          Node 4 ''identifier'' None 5 14 True [],
          Node 5 ''.'' None 14 15 False [],
          Node 6 ''identifier'' None 15 25 True []],
        Node 7 ''import'' None 26 32 False [],
        Node 8 ''dotted_name'' (Some ''name'') 33 34 True [
          Node 9 ''identifier'' None 33 34 True []]]]"

text \<open>The same file after one pass of langchain-classic-imports.\<close>

definition migrated_src :: string where
  "migrated_src = ''from langchain_classic.retrievers import R'' @ [CHR 0x0A]"

definition migrated_tree :: node where
  "migrated_tree =
    Node 0 ''module'' None 0 43 True [
      Node 1 ''import_from_statement'' None 0 42 True [
        Node 2 ''from'' None 0 4 False [],
        Node 3 ''dotted_name'' (Some ''module_name'') 5 33 True [
          Node 4 ''identifier'' None 5 22 True [],
          Node 5 ''.'' None 22 23 False [],
          Node 6 ''identifier'' None 23 33 True []],
        Node 7 ''import'' None 34 40 False [],
        Node 8 ''dotted_name'' (Some ''name'') 41 42 True [
          Node 9 ''identifier'' None 41 42 True []]]]"








text \<open>The file after the pass.\<close>

definition first_name_out :: string where
  "first_name_out = ''from langgraph.prebuilt import create_react_agent'' @ [CHR 0x0A] @ ''agent = create_react_agent(m, tools=t)'' @ [CHR 0x0A]"

text \<open>An \<open>AIMessage\<close> whose \<open>additional_kwargs\<close> has the string \<open>example\<close> as a value, under another key.\<close>

definition value_example_src :: string where
  "value_example_src = ''msg = AIMessage(content=c, example=True, additional_kwargs={'' @ [CHR 0x22] @ ''foo'' @ [CHR 0x22] @ '': '' @ [CHR 0x22] @ ''example'' @ [CHR 0x22] @ ''})'' @ [CHR 0x0A]"

definition value_example_tree :: node where
  "value_example_tree =
    Node 0 ''module'' None 0 79 True [
      Node 1 ''expression_statement'' None 0 78 True [
        Node 2 ''assignment'' None 0 78 True [
          Node 3 ''identifier'' (Some ''left'') 0 3 True [],
          Node 4 ''='' None 4 5 False [],
          Node 5 ''call'' (Some ''right'') 6 78 True [
            Node 6 ''identifier'' (Some ''function'') 6 15 True [],
            Node 7 ''argument_list'' (Some ''arguments'') 15 78 True [
              Node 8 ''('' None 15 16 False [],
              Node 9 ''keyword_argument'' None 16 25 True [
                Node 10 ''identifier'' (Some ''name'') 16 23 True [],
                Node 11 ''='' None 23 24 False [],
                Node 12 ''identifier'' (Some ''value'') 24 25 True []],
              Node 13 '','' None 25 26 False [],
              Node 14 ''keyword_argument'' None 27 39 True [
                Node 15 ''identifier'' (Some ''name'') 27 34 True [],
                Node 16 ''='' None 34 35 False [],
                Node 17 ''true'' (Some ''value'') 35 39 True []],
              Node 18 '','' None 39 40 False [],
              Node 19 ''keyword_argument'' None 41 77 True [
                Node 20 ''identifier'' (Some ''name'') 41 58 True [],
                Node 21 ''='' None 58 59 False [],
                Node 22 ''dictionary'' (Some ''value'') 59 77 True [
                  Node 23 ''{'' None 59 60 False [],
                  Node 24 ''pair'' None 60 76 True [
                    Node 25 ''string'' (Some ''key'') 60 65 True [
                      Node 26 ''string_start'' None 60 61 True [],
                      Node 27 ''string_content'' None 61 64 True [],
                      Node 28 ''string_end'' None 64 65 True []],
                    Node 29 '':'' None 65 66 False [],
                    Node 30 ''string'' (Some ''value'') 67 76 True [
                      Node 31 ''string_start'' None 67 68 True [],
                      Node 32 ''string_content'' None 68 75 True [],
                      Node 33 ''string_end'' None 75 76 True []]],
                  Node 34 ''}'' None 76 77 False []]],
              Node 35 '')'' None 77 78 False []]]]]]"

text \<open>An \<open>AIMessage\<close> whose \<open>additional_kwargs\<close> is an empty dictionary with a comment inside.\<close>

definition comment_dict_src :: string where
  "comment_dict_src = ''msg = AIMessage(content=c, example=True, additional_kwargs={ # c'' @ [CHR 0x0A] @ ''})'' @ [CHR 0x0A]"

definition comment_dict_tree :: node where
  "comment_dict_tree =
    Node 0 ''module'' None 0 68 True [
      Node 1 ''expression_statement'' None 0 67 True [
        Node 2 ''assignment'' None 0 67 True [
          Node 3 ''identifier'' (Some ''left'') 0 3 True [],
          Node 4 ''='' None 4 5 False [],
          Node 5 ''call'' (Some ''right'') 6 67 True [
            Node 6 ''identifier'' (Some ''function'') 6 15 True [],
            Node 7 ''argument_list'' (Some ''arguments'') 15 67 True [
              Node 8 ''('' None 15 16 False [],
              Node 9 ''keyword_argument'' None 16 25 True [
                Node 10 ''identifier'' (Some ''name'') 16 23 True [],
                Node 11 ''='' None 23 24 False [],
                Node 12 ''identifier'' (Some ''value'') 24 25 True []],
              Node 13 '','' None 25 26 False [],
              Node 14 ''keyword_argument'' None 27 39 True [
                Node 15 ''identifier'' (Some ''name'') 27 34 True [],
                Node 16 ''='' None 34 35 False [],
                Node 17 ''true'' (Some ''value'') 35 39 True []],
              Node 18 '','' None 39 40 False [],
              Node 19 ''keyword_argument'' None 41 66 True [
                Node 20 ''identifier'' (Some ''name'') 41 58 True [],
                Node 21 ''='' None 58 59 False [],
                Node 22 ''dictionary'' (Some ''value'') 59 66 True [
                  Node 23 ''{'' None 59 60 False [],
                  Node 24 ''comment'' None 61 64 True [],
                  Node 25 ''}'' None 65 66 False []]],
              Node 26 '')'' None 66 67 False []]]]]]"

text \<open>The file after the pass: the closing brace and parenthesis are now part of the comment.\<close>

definition comment_dict_out :: string where
  "comment_dict_out = ''msg = AIMessage(content=c, additional_kwargs={'' @ [CHR 0x22] @ ''example'' @ [CHR 0x22] @ '': True, # c})'' @ [CHR 0x0A]"

text \<open>The file with a tuple-shaped and a plain \<open>response_format\<close> after one pass of response-format-tool-strategy.\<close>

definition tuple_and_plain_out_src :: string where
  "tuple_and_plain_out_src = ''import os'' @ [CHR 0x0A] @ ''from langchain.agents.structured_output import ToolStrategy'' @ [CHR 0x0A] @ ''a = create_agent(m, response_format=(p, S))'' @ [CHR 0x0A] @ ''b = create_agent(m, response_format=ToolStrategy(S))'' @ [CHR 0x0A]"

definition tuple_and_plain_out_tree :: node where
  "tuple_and_plain_out_tree =
    Node 0 ''module'' None 0 167 True [
      Node 1 ''import_statement'' None 0 9 True [
        Node 2 ''import'' None 0 6 False [],
        Node 3 ''dotted_name'' (Some ''name'') 7 9 True [
          Node 4 ''identifier'' None 7 9 True []]],
      Node 5 ''import_from_statement'' None 10 69 True [
        Node 6 ''from'' None 10 14 False [],
        Node 7 ''dotted_name'' (Some ''module_name'') 15 49 True [
          Node 8 ''identifier'' None 15 24 True [],
          Node 9 ''.'' None 24 25 False [],
          Node 10 ''identifier'' None 25 31 True [],
          Node 11 ''.'' None 31 32 False [],
          Node 12 ''identifier'' None 32 49 True []],
        Node 13 ''import'' None 50 56 False [],
        Node 14 ''dotted_name'' (Some ''name'') 57 69 True [
          Node 15 ''identifier'' None 57 69 True []]],
      Node 16 ''expression_statement'' None 70 113 True [
        Node 17 ''assignment'' None 70 113 True [
          Node 18 ''identifier'' (Some ''left'') 70 71 True [],
          Node 19 ''='' None 72 73 False [],
          Node 20 ''call'' (Some ''right'') 74 113 True [
            Node 21 ''identifier'' (Some ''function'') 74 86 True [],
            Node 22 ''argument_list'' (Some ''arguments'') 86 113 True [
              Node 23 ''('' None 86 87 False [],
              Node 24 ''identifier'' None 87 88 True [],
              Node 25 '','' None 88 89 False [],
              Node 26 ''keyword_argument'' None 90 112 True [
                Node 27 ''identifier'' (Some ''name'') 90 105 True [],
                Node 28 ''='' None 105 106 False [],
                Node 29 ''tuple'' (Some ''value'') 106 112 True [
                  Node 30 ''('' None 106 107 False [],
                  Node 31 ''identifier'' None 107 108 True [],
                  Node 32 '','' None 108 109 False [],
                  Node 33 ''identifier'' None 110 111 True [],
                  Node 34 '')'' None 111 112 False []]],
              Node 35 '')'' None 112 113 False []]]]],
      Node 36 ''expression_statement'' None 114 166 True [
        Node 37 ''assignment'' None 114 166 True [
          Node 38 ''identifier'' (Some ''left'') 114 115 True [],
          Node 39 ''='' None 116 117 False [],
          Node 40 ''call'' (Some ''right'') 118 166 True [
            Node 41 ''identifier'' (Some ''function'') 118 130 True [],
            Node 42 ''argument_list'' (Some ''arguments'') 130 166 True [
              Node 43 ''('' None 130 131 False [],
              Node 44 ''identifier'' None 131 132 True [],
              Node 45 '','' None 132 133 False [],
              Node 46 ''keyword_argument'' None 134 165 True [
                Node 47 ''identifier'' (Some ''name'') 134 149 True [],
                Node 48 ''='' None 149 150 False [],
                Node 49 ''call'' (Some ''value'') 150 165 True [
                  Node 50 ''identifier'' (Some ''function'') 150 162 True [],
                  Node 51 ''argument_list'' (Some ''arguments'') 162 165 True [
                    Node 52 ''('' None 162 163 False [],
                    Node 53 ''identifier'' None 163 164 True [],
                    Node 54 '')'' None 164 165 False []]]],
              Node 55 '')'' None 165 166 False []]]]]]"

text \<open>An import from a legacy module, an import that is migrated already, and another import.\<close>

definition legacy_mixed_src :: string where
  "legacy_mixed_src = ''from langchain.retrievers import R'' @ [CHR 0x0A] @ ''from langchain_classic.indexes import X'' @ [CHR 0x0A] @ ''from os import path'' @ [CHR 0x0A]"

definition legacy_mixed_tree :: node where
  "legacy_mixed_tree =
    Node 0 ''module'' None 0 95 True [
      Node 1 ''import_from_statement'' None 0 34 True [
        Node 2 ''from'' None 0 4 False [],
        Node 3 ''dotted_name'' (Some ''module_name'') 5 25 True [
          Node 4 ''identifier'' None 5 14 True [],
          Node 5 ''.'' None 14 15 False [],
          Node 6 ''identifier'' None 15 25 True []],
        Node 7 ''import'' None 26 32 False [],
        Node 8 ''dotted_name'' (Some ''name'') 33 34 True [
          Node 9 ''identifier'' None 33 34 True []]],
      Node 10 ''import_from_statement'' None 35 74 True [
        Node 11 ''from'' None 35 39 False [],
        Node 12 ''dotted_name'' (Some ''module_name'') 40 65 True [
          Node 13 ''identifier'' None 40 57 True [],
          Node 14 ''.'' None 57 58 False [],
          Node 15 ''identifier'' None 58 65 True []],
        Node 16 ''import'' None 66 72 False [],
        Node 17 ''dotted_name'' (Some ''name'') 73 74 True [
          Node 18 ''identifier'' None 73 74 True []]],
      Node 19 ''import_from_statement'' None 75 94 True [
        Node 20 ''from'' None 75 79 False [],
        Node 21 ''dotted_name'' (Some ''module_name'') 80 82 True [
          Node 22 ''identifier'' None 80 82 True []],
        Node 23 ''import'' None 83 89 False [],
        Node 24 ''dotted_name'' (Some ''name'') 90 94 True [
          Node 25 ''identifier'' None 90 94 True []]]]"

text \<open>The same file after one pass of langchain-classic-imports.\<close>

definition legacy_mixed_out_src :: string where
  "legacy_mixed_out_src = ''from langchain_classic.retrievers import R'' @ [CHR 0x0A] @ ''from langchain_classic.indexes import X'' @ [CHR 0x0A] @ ''from os import path'' @ [CHR 0x0A]"

definition legacy_mixed_out_tree :: node where
  "legacy_mixed_out_tree =
    Node 0 ''module'' None 0 103 True [
      Node 1 ''import_from_statement'' None 0 42 True [
        Node 2 ''from'' None 0 4 False [],
        Node 3 ''dotted_name'' (Some ''module_name'') 5 33 True [
          Node 4 ''identifier'' None 5 22 True [],
          Node 5 ''.'' None 22 23 False [],
          Node 6 ''identifier'' None 23 33 True []],
        Node 7 ''import'' None 34 40 False [],
        Node 8 ''dotted_name'' (Some ''name'') 41 42 True [
          Node 9 ''identifier'' None 41 42 True []]],
      Node 10 ''import_from_statement'' None 43 82 True [
        Node 11 ''from'' None 43 47 False [],
        Node 12 ''dotted_name'' (Some ''module_name'') 48 73 True [
          Node 13 ''identifier'' None 48 65 True [],
          Node 14 ''.'' None 65 66 False [],
          Node 15 ''identifier'' None 66 73 True []],
        Node 16 ''import'' None 74 80 False [],
        Node 17 ''dotted_name'' (Some ''name'') 81 82 True [
          Node 18 ''identifier'' None 81 82 True []]],
      Node 19 ''import_from_statement'' None 83 102 True [
        Node 20 ''from'' None 83 87 False [],
        Node 21 ''dotted_name'' (Some ''module_name'') 88 90 True [
          Node 22 ''identifier'' None 88 90 True []],
        Node 23 ''import'' None 91 97 False [],
        Node 24 ''dotted_name'' (Some ''name'') 98 102 True [
          Node 25 ''identifier'' None 98 102 True []]]]"

text \<open>A \<open>ToolNode\<close> around a \<open>ToolNode\<close> as the tools of an agent.\<close>

definition nested_tool_src :: string where
  "nested_tool_src = ''agent = create_agent(m, tools=ToolNode(ToolNode(t)))'' @ [CHR 0x0A]"

definition nested_tool_tree :: node where
  "nested_tool_tree =
    Node 0 ''module'' None 0 53 True [
      Node 1 ''expression_statement'' None 0 52 True [
        Node 2 ''assignment'' None 0 52 True [
          Node 3 ''identifier'' (Some ''left'') 0 5 True [],
          Node 4 ''='' None 6 7 False [],
          Node 5 ''call'' (Some ''right'') 8 52 True [
            Node 6 ''identifier'' (Some ''function'') 8 20 True [],
            Node 7 ''argument_list'' (Some ''arguments'') 20 52 True [
              Node 8 ''('' None 20 21 False [],
              Node 9 ''identifier'' None 21 22 True [],
              Node 10 '','' None 22 23 False [],
              Node 11 ''keyword_argument'' None 24 51 True [
                Node 12 ''identifier'' (Some ''name'') 24 29 True [],
                Node 13 ''='' None 29 30 False [],
                Node 14 ''call'' (Some ''value'') 30 51 True [
                  Node 15 ''identifier'' (Some ''function'') 30 38 True [],
                  Node 16 ''argument_list'' (Some ''arguments'') 38 51 True [
                    Node 17 ''('' None 38 39 False [],
                    Node 18 ''call'' None 39 50 True [
                      Node 19 ''identifier'' (Some ''function'') 39 47 True [],
                      Node 20 ''argument_list'' (Some ''arguments'') 47 50 True [
                        Node 21 ''('' None 47 48 False [],
                        Node 22 ''identifier'' None 48 49 True [],
                        Node 23 '')'' None 49 50 False []]],
                    Node 24 '')'' None 50 51 False []]]],
              Node 25 '')'' None 51 52 False []]]]]]"

text \<open>The same file after one pass of unwrap-tool-node-in-agent.\<close>

definition nested_tool_once_src :: string where
  "nested_tool_once_src = ''agent = create_agent(m, tools=ToolNode(t))'' @ [CHR 0x0A]"

definition nested_tool_once_tree :: node where
  "nested_tool_once_tree =
    Node 0 ''module'' None 0 43 True [
      Node 1 ''expression_statement'' None 0 42 True [
        Node 2 ''assignment'' None 0 42 True [
          Node 3 ''identifier'' (Some ''left'') 0 5 True [],
          Node 4 ''='' None 6 7 False [],
          Node 5 ''call'' (Some ''right'') 8 42 True [
            Node 6 ''identifier'' (Some ''function'') 8 20 True [],
            Node 7 ''argument_list'' (Some ''arguments'') 20 42 True [
              Node 8 ''('' None 20 21 False [],
              Node 9 ''identifier'' None 21 22 True [],
              Node 10 '','' None 22 23 False [],
              Node 11 ''keyword_argument'' None 24 41 True [
                Node 12 ''identifier'' (Some ''name'') 24 29 True [],
                Node 13 ''='' None 29 30 False [],
                Node 14 ''call'' (Some ''value'') 30 41 True [
                  Node 15 ''identifier'' (Some ''function'') 30 38 True [],
                  Node 16 ''argument_list'' (Some ''arguments'') 38 41 True [
                    Node 17 ''('' None 38 39 False [],
                    Node 18 ''identifier'' None 39 40 True [],
                    Node 19 '')'' None 40 41 False []]]],
              Node 20 '')'' None 41 42 False []]]]]]"

text \<open>The same file after a second pass.\<close>

definition nested_tool_none :: string where
  "nested_tool_none = ''agent = create_agent(m, tools=t)'' @ [CHR 0x0A]"

text \<open>The import of \<open>ToolNode\<close> alone after two blank lines: the root node starts at the first statement.\<close>

definition leading_blank_src :: string where
  "leading_blank_src = [CHR 0x0A] @ [CHR 0x0A] @ ''from langgraph.prebuilt import ToolNode'' @ [CHR 0x0A] @ [CHR 0x0A] @ ''agent = create_agent(m, tools=ToolNode(t))'' @ [CHR 0x0A]"

definition leading_blank_tree :: node where
  "leading_blank_tree =
    Node 0 ''module'' None 2 86 True [
      Node 1 ''import_from_statement'' None 2 41 True [
        Node 2 ''from'' None 2 6 False [],
        Node 3 ''dotted_name'' (Some ''module_name'') 7 25 True [
          Node 4 ''identifier'' None 7 16 True [],
          Node 5 ''.'' None 16 17 False [],
          Node 6 ''identifier'' None 17 25 True []],
        Node 7 ''import'' None 26 32 False [],
        Node 8 ''dotted_name'' (Some ''name'') 33 41 True [
          Node 9 ''identifier'' None 33 41 True []]],
      Node 10 ''expression_statement'' None 43 85 True [
        Node 11 ''assignment'' None 43 85 True [
          Node 12 ''identifier'' (Some ''left'') 43 48 True [],
          Node 13 ''='' None 49 50 False [],
          Node 14 ''call'' (Some ''right'') 51 85 True [
            Node 15 ''identifier'' (Some ''function'') 51 63 True [],
            Node 16 ''argument_list'' (Some ''arguments'') 63 85 True [
              Node 17 ''('' None 63 64 False [],
              Node 18 ''identifier'' None 64 65 True [],
              Node 19 '','' None 65 66 False [],
              Node 20 ''keyword_argument'' None 67 84 True [
                Node 21 ''identifier'' (Some ''name'') 67 72 True [],
                Node 22 ''='' None 72 73 False [],
                Node 23 ''call'' (Some ''value'') 73 84 True [
                  Node 24 ''identifier'' (Some ''function'') 73 81 True [],
                  Node 25 ''argument_list'' (Some ''arguments'') 81 84 True [
                    Node 26 ''('' None 81 82 False [],
                    Node 27 ''identifier'' None 82 83 True [],
                    Node 28 '')'' None 83 84 False []]]],
              Node 29 '')'' None 84 85 False []]]]]]"

text \<open>The import of \<open>ToolNode\<close> alone after a string of two characters that take two bytes each.\<close>

definition non_ascii_src :: string where
  "non_ascii_src = ''s = '' @ [CHR 0x22] @ [CHR 0xC3] @ [CHR 0xA9] @ [CHR 0xC3] @ [CHR 0xA9] @ [CHR 0x22] @ [CHR 0x0A] @ ''from langgraph.prebuilt import ToolNode'' @ [CHR 0x0A] @ [CHR 0x0A] @ ''agent = create_agent(m, tools=ToolNode(t))'' @ [CHR 0x0A]"

definition non_ascii_tree :: node where
  "non_ascii_tree =
    Node 0 ''module'' None 0 95 True [
      Node 1 ''expression_statement'' None 0 10 True [
        Node 2 ''assignment'' None 0 10 True [
          Node 3 ''identifier'' (Some ''left'') 0 1 True [],
          Node 4 ''='' None 2 3 False [],
          Node 5 ''string'' (Some ''right'') 4 10 True [
            Node 6 ''string_start'' None 4 5 True [],
            Node 7 ''string_content'' None 5 9 True [],
            Node 8 ''string_end'' None 9 10 True []]]],
      Node 9 ''import_from_statement'' None 11 50 True [
        Node 10 ''from'' None 11 15 False [],
        Node 11 ''dotted_name'' (Some ''module_name'') 16 34 True [
          Node 12 ''identifier'' None 16 25 True [],
          Node 13 ''.'' None 25 26 False [],
          Node 14 ''identifier'' None 26 34 True []],
        Node 15 ''import'' None 35 41 False [],
        Node 16 ''dotted_name'' (Some ''name'') 42 50 True [
          Node 17 ''identifier'' None 42 50 True []]],
      Node 18 ''expression_statement'' None 52 94 True [
        Node 19 ''assignment'' None 52 94 True [
          Node 20 ''identifier'' (Some ''left'') 52 57 True [],
          Node 21 ''='' None 58 59 False [],
          Node 22 ''call'' (Some ''right'') 60 94 True [
            Node 23 ''identifier'' (Some ''function'') 60 72 True [],
            Node 24 ''argument_list'' (Some ''arguments'') 72 94 True [
              Node 25 ''('' None 72 73 False [],
              Node 26 ''identifier'' None 73 74 True [],
              Node 27 '','' None 74 75 False [],
              Node 28 ''keyword_argument'' None 76 93 True [
                Node 29 ''identifier'' (Some ''name'') 76 81 True [],
                Node 30 ''='' None 81 82 False [],
                Node 31 ''call'' (Some ''value'') 82 93 True [
                  Node 32 ''identifier'' (Some ''function'') 82 90 True [],
                  Node 33 ''argument_list'' (Some ''arguments'') 90 93 True [
                    Node 34 ''('' None 90 91 False [],
                    Node 35 ''identifier'' None 91 92 True [],
                    Node 36 '')'' None 92 93 False []]]],
              Node 37 '')'' None 93 94 False []]]]]]"

section \<open>Slices and prefixes\<close>

lemma startsWith_append: "startsWith (p @ ys) p"
  by (induction p) auto

lemma includes_str_append: "includes_str (xs @ p @ ys) p"
proof (induction xs)
  case Nil
  then show ?case by (cases "p @ ys") (auto simp: startsWith_append dest: sym)
next
  case (Cons x xs)
  then show ?case by simp
qed

lemma slice_add:
  assumes "a \<le> b" "b \<le> c"
  shows "slice s a c = slice s a b @ slice s b c"
proof -
  have "c - a = (b - a) + (c - b)" using assms by simp
  then have "take (c - a) (drop a s) = take (b - a) (drop a s) @ take (c - b) (drop (b - a) (drop a s))"
    by (simp only: take_add)
  moreover have "drop (b - a) (drop a s) = drop b s"
    using assms by simp
  ultimately show ?thesis by (simp add: slice_def)
qed

lemma slice_length: "b \<le> length s \<Longrightarrow> length (slice s a b) = b - a"
  by (simp add: slice_def)

lemma slice_nth: "a \<le> i \<Longrightarrow> i < b \<Longrightarrow> b \<le> length s \<Longrightarrow> slice s a b ! (i - a) = s ! i"
  by (simp add: slice_def)

section \<open>Searching a tree\<close>

lemma self_in_dfs: "n \<in> set (dfs n)"
  by (cases n) simp

lemma child_in_dfs: "c \<in> set (children n) \<Longrightarrow> c \<in> set (dfs n)"
  by (cases n) (auto intro: self_in_dfs)

lemma find_first_None_iff: "find_first p n = None \<longleftrightarrow> (\<forall>x\<in>set (dfs n). \<not> p x)"
  by (auto simp: find_first_def find_None_iff)

lemma field_in_children: "field n f = Some c \<Longrightarrow> c \<in> set (children n)"
  by (auto simp: field_def find_Some_iff)

section \<open>The loops, as lists of edits\<close>

lemma emitted_append: "emitted (xs @ ys) = emitted xs @ emitted ys"
  by (induction xs rule: emitted.induct) auto

lemma emitted_Nil_iff: "emitted ss = [] \<longleftrightarrow> (\<forall>s\<in>set ss. s = Skip \<or> s = Warn)"
  by (induction ss rule: emitted.induct) auto

lemma emitted_mem: "e \<in> set (emitted ss) \<longleftrightarrow> Emit e \<in> set ss"
  by (induction ss rule: emitted.induct) auto

lemma rf_loop_edits: "edits (rf_loop src cs st) = edits st @ emitted (map (rf_body src) cs)"
  by (induction cs arbitrary: st) (auto split: step.splits)

lemma rf_loop_needsImport:
  "needsImport (rf_loop src cs st) = (needsImport st \<or> emitted (map (rf_body src) cs) \<noteq> [])"
  by (induction cs arbitrary: st) (auto split: step.splits)

lemma rf_loop_warnings:
  "warnings (rf_loop src cs st) = warnings st + length (filter (\<lambda>c. rf_body src c = Warn) cs)"
  by (induction cs arbitrary: st) (auto split: step.splits)

lemma ps_loop_edits:
  "ps_loop d src r cs es = es @ emitted (map (ps_body d src r) cs)"
  by (induction cs arbitrary: es) (auto split: step.splits)

lemma tm_loop_edits: "tm_loop src cs es = es @ List.map_filter (tm_body src) cs"
  by (induction cs arbitrary: es) (auto split: option.splits)

lemma map_filter_Nil_iff: "List.map_filter f xs = [] \<longleftrightarrow> (\<forall>x\<in>set xs. f x = None)"
  by (induction xs) (auto split: option.splits)

lemma commit_not_Unchanged: "commit src es \<noteq> Unchanged"
  by (simp add: commit_def split: sum.splits)

section \<open>Nothing to do\<close>

text \<open>
  C8. A transformation returns the unchanged sentinel exactly when no rule produced an
  edit: every call the detector found was skipped by the loop body (or the detector
  found none). The sentinel is a value of its own, so it is neither a rewritten text
  nor a failure. Stated for response-format-tool-strategy and text-method-to-property.
\<close>

theorem no_edit_returns_unchanged:
  "(transform_response_format src rootNode = Unchanged \<longleftrightarrow>
      (\<forall>c\<in>set (createAgentCalls src rootNode).
         rf_body src c = Skip \<or> rf_body src c = Warn)) \<and>
   (transform_text_method src rootNode = Unchanged \<longleftrightarrow>
      (\<forall>c\<in>set (textMethodCalls src rootNode). tm_body src c = None)) \<and>
   Unchanged \<noteq> Rewritten t \<and> Unchanged \<noteq> Failed err"
proof -
  have a: "transform_response_format src rootNode = Unchanged \<longleftrightarrow>
      emitted (map (rf_body src) (createAgentCalls src rootNode)) = []"
    by (simp add: transform_response_format_def Let_def rf_loop_edits commit_not_Unchanged)
  have b: "transform_text_method src rootNode = Unchanged \<longleftrightarrow>
      List.map_filter (tm_body src) (textMethodCalls src rootNode) = []"
    by (simp add: transform_text_method_def Let_def tm_loop_edits commit_not_Unchanged)
  show ?thesis
    using a b by (simp add: emitted_Nil_iff map_filter_Nil_iff)
qed

theorem no_edit_returns_unchanged_witness:
  "transform_response_format wrapped_src wrapped_tree = Unchanged \<and>
   transform_text_method text_arg_src text_arg_tree = Unchanged"
proof -
  have a: "\<forall>c\<in>set (createAgentCalls wrapped_src wrapped_tree).
             rf_body wrapped_src c = Skip \<or> rf_body wrapped_src c = Warn"
    by code_simp
  have b: "\<forall>c\<in>set (textMethodCalls text_arg_src text_arg_tree). tm_body text_arg_src c = None"
    by code_simp
  show ?thesis
    using no_edit_returns_unchanged [of wrapped_src wrapped_tree]
      no_edit_returns_unchanged [of text_arg_src text_arg_tree] a b
    by blast
qed

section \<open>Ambiguous sites\<close>

lemma rf_body_Warn_iff:
  "rf_body src c = Warn \<longleftrightarrow> (\<exists>v. response_format_value src c = Some v \<and> isTupleForm v)"
  by (auto simp: rf_body_def response_format_value_def split: option.splits)

lemma ps_scan_snd:
  "snd (ps_scan src ks st) \<longleftrightarrow> snd st \<or> list_ex (keyword_named src ''system_prompt'') ks"
proof (induction ks arbitrary: st)
  case Nil
  then show ?case by simp
next
  case (Cons k ks)
  obtain p h where st: "st = (p, h)" by (cases st)
  show ?case
    unfolding st by (auto simp: Cons.IH keyword_named_def split: option.splits)
qed

lemma ps_scan_fst_None:
  "fst (ps_scan src ks st) = None \<longleftrightarrow>
     fst st = None \<and> \<not> list_ex (keyword_named src ''prompt'') ks"
proof (induction ks arbitrary: st)
  case Nil
  then show ?case by simp
next
  case (Cons k ks)
  obtain p h where st: "st = (p, h)" by (cases st)
  show ?case
    unfolding st by (auto simp: Cons.IH keyword_named_def split: option.splits)
qed

lemma ps_scan_fst_Some:
  "fst (ps_scan src ks st) = Some k \<Longrightarrow>
     fst st = Some k \<or> (k \<in> set ks \<and> keyword_named src ''prompt'' k)"
proof (induction ks arbitrary: st)
  case Nil
  then show ?case by simp
next
  case (Cons k' ks)
  obtain p h where st: "st = (p, h)" by (cases st)
  define st' where "st' =
       (case field k' ''name'' of
          None \<Rightarrow> (p, h)
        | Some nameNode \<Rightarrow>
            if text_of src nameNode = ''prompt'' then (Some k', h)
            else if text_of src nameNode = ''system_prompt'' then (p, True)
            else (p, h))"
  have step: "fst st' = p \<or> (fst st' = Some k' \<and> keyword_named src ''prompt'' k')"
    unfolding st'_def keyword_named_def by (cases "field k' ''name''") simp_all
  have "ps_scan src (k' # ks) st = ps_scan src ks st'"
    unfolding st st'_def by simp
  with Cons.prems have "fst (ps_scan src ks st') = Some k" by simp
  from Cons.IH [OF this] have "fst st' = Some k \<or> (k \<in> set ks \<and> keyword_named src ''prompt'' k)" .
  with step show ?case
    unfolding st by auto
qed

lemma ps_body_both_keywords:
  assumes "field c ''arguments'' = Some argList"
    and "has_keyword src ''prompt'' argList" and "has_keyword src ''system_prompt'' argList"
  shows "ps_body d src r c = Skip \<or> ps_body d src r c = Warn"
proof -
  let ?ks = "findAll (\<lambda>n. kind n = ''keyword_argument'') argList"
  obtain p h where sc: "ps_scan src ?ks (None, False) = (p, h)"
    by (cases "ps_scan src ?ks (None, False)")
  have "h"
    using ps_scan_snd [of src ?ks "(None, False)"] assms(3) sc by (simp add: has_keyword_def)
  then show ?thesis
    using assms(1) sc by (auto simp: ps_body_def split: option.splits)
qed

text \<open>
  C7. An ambiguous site is skipped alone. In response-format-tool-strategy a call whose
  \<open>response_format\<close> value is a tuple costs a warning and nothing else: the loop over
  the calls goes on, and its edits and its import flag are those of the same calls
  without the ambiguous one. In prompt-to-system-prompt a call that carries both
  \<open>prompt=\<close> and \<open>system_prompt=\<close> yields no edit, and the edits of the loop are those of
  the other calls. In both, an edit that the body emits for a call of the file is among
  the edits of the file whatever the other calls are, and the file is not reported
  unchanged.
\<close>

theorem ambiguous_match_skipped_alone:
  "(response_format_value src c = Some v \<and> isTupleForm v \<longrightarrow>
      edits (rf_loop src (cs1 @ c # cs2) st) = edits (rf_loop src (cs1 @ cs2) st) \<and>
      needsImport (rf_loop src (cs1 @ c # cs2) st) = needsImport (rf_loop src (cs1 @ cs2) st) \<and>
      warnings (rf_loop src (cs1 @ c # cs2) st) = Suc (warnings (rf_loop src (cs1 @ cs2) st))) \<and>
   (field c ''arguments'' = Some argList \<and> has_keyword src ''prompt'' argList \<and>
    has_keyword src ''system_prompt'' argList \<longrightarrow>
      ps_loop d src rootNode (cs1 @ c # cs2) es = ps_loop d src rootNode (cs1 @ cs2) es) \<and>
   (c' \<in> set (createAgentCalls src rootNode) \<and> rf_body src c' = Emit e \<longrightarrow>
      e \<in> set (rf_all_edits src rootNode) \<and> transform_response_format src rootNode \<noteq> Unchanged) \<and>
   (c' \<in> set (agentCalls src rootNode) \<and> ps_body d src rootNode c' = Emit e \<longrightarrow>
      e \<in> set (ps_edits d src rootNode) \<and> transform_prompt d src rootNode \<noteq> Unchanged)"
proof -
  have rf: "edits (rf_loop src (cs1 @ c # cs2) st) = edits (rf_loop src (cs1 @ cs2) st) \<and>
      needsImport (rf_loop src (cs1 @ c # cs2) st) = needsImport (rf_loop src (cs1 @ cs2) st) \<and>
      warnings (rf_loop src (cs1 @ c # cs2) st) = Suc (warnings (rf_loop src (cs1 @ cs2) st))"
    if "response_format_value src c = Some v" "isTupleForm v"
  proof -
    have w: "rf_body src c = Warn"
      using that rf_body_Warn_iff by blast
    show ?thesis
      by (simp add: rf_loop_edits rf_loop_needsImport rf_loop_warnings emitted_append w)
  qed
  have ps: "ps_loop d src rootNode (cs1 @ c # cs2) es = ps_loop d src rootNode (cs1 @ cs2) es"
    if "field c ''arguments'' = Some argList" "has_keyword src ''prompt'' argList"
      "has_keyword src ''system_prompt'' argList"
  proof -
    have "ps_body d src rootNode c = Skip \<or> ps_body d src rootNode c = Warn"
      using that by (rule ps_body_both_keywords)
    then show ?thesis
      by (auto simp: ps_loop_edits emitted_append)
  qed
  have rf_file: "e \<in> set (rf_all_edits src rootNode) \<and>
      transform_response_format src rootNode \<noteq> Unchanged"
    if "c' \<in> set (createAgentCalls src rootNode)" "rf_body src c' = Emit e"
  proof -
    have m: "e \<in> set (emitted (map (rf_body src) (createAgentCalls src rootNode)))"
      using that by (force simp: emitted_mem)
    then have ne: "emitted (map (rf_body src) (createAgentCalls src rootNode)) \<noteq> []"
      by auto
    show ?thesis
      using m ne
      by (simp add: rf_all_edits_def transform_response_format_def Let_def rf_loop_edits
          commit_not_Unchanged)
  qed
  have ps_file: "e \<in> set (ps_edits d src rootNode) \<and> transform_prompt d src rootNode \<noteq> Unchanged"
    if "c' \<in> set (agentCalls src rootNode)" "ps_body d src rootNode c' = Emit e"
  proof -
    have m: "e \<in> set (emitted (map (ps_body d src rootNode) (agentCalls src rootNode)))"
      using that by (force simp: emitted_mem)
    then have ne: "emitted (map (ps_body d src rootNode) (agentCalls src rootNode)) \<noteq> []"
      by auto
    show ?thesis
      using m ne
      by (simp add: ps_edits_def transform_prompt_def Let_def ps_loop_edits commit_not_Unchanged)
  qed
  show ?thesis
    using rf ps rf_file ps_file by blast
qed

theorem ambiguous_match_skipped_alone_witness:
  "edits (rf_loop tuple_and_plain_src
            (createAgentCalls tuple_and_plain_src tuple_and_plain_tree) rf_init) =
     edits (rf_loop tuple_and_plain_src
            (tl (createAgentCalls tuple_and_plain_src tuple_and_plain_tree)) rf_init) \<and>
   ps_loop (\<lambda>n. None) both_prompts_src both_prompts_tree
       (agentCalls both_prompts_src both_prompts_tree) [] =
     ps_loop (\<lambda>n. None) both_prompts_src both_prompts_tree
       (tl (agentCalls both_prompts_src both_prompts_tree)) [] \<and>
   transform_response_format tuple_and_plain_src tuple_and_plain_tree \<noteq> Unchanged \<and>
   transform_prompt (\<lambda>n. None) both_prompts_src both_prompts_tree \<noteq> Unchanged"
proof -
  let ?s = tuple_and_plain_src and ?t = tuple_and_plain_tree
  let ?cs = "createAgentCalls ?s ?t"
  let ?s' = both_prompts_src and ?t' = both_prompts_tree
  let ?cs' = "agentCalls ?s' ?t'"
  let ?d = "\<lambda>n::node. None :: resolved option"
  have ne: "?cs \<noteq> []" by code_simp
  have tup: "case response_format_value ?s (hd ?cs) of None \<Rightarrow> False | Some v \<Rightarrow> isTupleForm v"
    by code_simp
  then obtain v where v: "response_format_value ?s (hd ?cs) = Some v" "isTupleForm v"
    by (auto split: option.splits)
  have plain: "case rf_body ?s (?cs ! 1) of Emit e \<Rightarrow> True | _ \<Rightarrow> False"
    by code_simp
  then obtain e where e: "rf_body ?s (?cs ! 1) = Emit e"
    by (auto split: step.splits)
  have len: "length ?cs = 2" by code_simp
  have mem: "?cs ! 1 \<in> set ?cs"
    using len by simp
  have ne': "?cs' \<noteq> []" by code_simp
  have both: "case field (hd ?cs') ''arguments'' of None \<Rightarrow> False
     | Some a \<Rightarrow> has_keyword ?s' ''prompt'' a \<and> has_keyword ?s' ''system_prompt'' a"
    by code_simp
  then obtain a where a: "field (hd ?cs') ''arguments'' = Some a"
    "has_keyword ?s' ''prompt'' a" "has_keyword ?s' ''system_prompt'' a"
    by (auto split: option.splits)
  have alone: "case ps_body ?d ?s' ?t' (?cs' ! 1) of Emit e \<Rightarrow> True | _ \<Rightarrow> False"
    by code_simp
  then obtain e' where e': "ps_body ?d ?s' ?t' (?cs' ! 1) = Emit e'"
    by (auto split: step.splits)
  have len': "length ?cs' = 2" by code_simp
  have mem': "?cs' ! 1 \<in> set ?cs'"
    using len' by simp
  have c1: "hd ?cs # tl ?cs = ?cs" "hd ?cs' # tl ?cs' = ?cs'"
    using ne ne' by simp_all
  note rf = ambiguous_match_skipped_alone
    [where src = ?s and c = "hd ?cs" and v = v and ?cs1.0 = "[]" and ?cs2.0 = "tl ?cs"
       and st = rf_init and c' = "?cs ! 1" and rootNode = ?t and e = e]
  note ps = ambiguous_match_skipped_alone
    [where src = ?s' and c = "hd ?cs'" and argList = a and ?cs1.0 = "[]"
       and ?cs2.0 = "tl ?cs'" and d = ?d and rootNode = ?t' and es = "[]"
       and c' = "?cs' ! 1" and e = e']
  show ?thesis
    using rf ps v e mem a e' mem' by (simp add: c1)
qed

section \<open>The inserted import\<close>

lemma lastImportEnd_loop_Max:
  "lastImportEnd_loop m xs = Max (insert m (endIndex ` set xs))"
proof (induction xs arbitrary: m)
  case Nil
  then show ?case by simp
next
  case (Cons x xs)
  have "Max (insert (max m (endIndex x)) (endIndex ` set xs)) =
        Max (insert m (insert (endIndex x) (endIndex ` set xs)))"
    by (cases "set xs = {}") (simp_all add: max.assoc)
  moreover have "(if endIndex x > m then endIndex x else m) = max m (endIndex x)"
    by (simp add: max_def)
  ultimately show ?case
    by (simp add: Cons.IH del: Max_insert)
qed

lemma includes_text_within:
  assumes "within c n"
  shows "includes_str (text_of src n) (text_of src c)"
proof -
  have "slice src (startIndex n) (endIndex n) =
        slice src (startIndex n) (startIndex c) @
        (slice src (startIndex c) (endIndex c) @ slice src (endIndex c) (endIndex n))"
    using assms slice_add [of "startIndex n" "startIndex c" "endIndex n" src]
      slice_add [of "startIndex c" "endIndex c" "endIndex n" src]
    by (simp add: within_def)
  then show ?thesis
    by (simp add: text_of_def includes_str_append)
qed

lemma rf_body_Emit:
  "rf_body src c = Emit e \<Longrightarrow>
   \<exists>v. response_format_value src c = Some v \<and> \<not> isTupleForm v \<and>
      \<not> isAlreadyWrapped src v \<and> e = replace v (''ToolStrategy('' @ text_of src v @ '')'')"
  by (auto simp: rf_body_def response_format_value_def split: option.splits if_splits)

lemma rf_emitted_shape:
  assumes "e \<in> set (emitted (map (rf_body src) cs))"
  shows "\<exists>c v. c \<in> set cs \<and> response_format_value src c = Some v \<and> \<not> isTupleForm v \<and>
      \<not> isAlreadyWrapped src v \<and> e = replace v (''ToolStrategy('' @ text_of src v @ '')'')"
proof -
  from assms obtain c where c: "c \<in> set cs" "rf_body src c = Emit e"
    by (auto simp: emitted_mem)
  from rf_body_Emit [OF c(2)] c(1) show ?thesis by blast
qed

text \<open>
  C10. The import of \<open>ToolStrategy\<close> is inserted at most once per file: the edits of the
  file are the wrapping edits of the loop, followed by one insertion exactly when there
  is a wrapping edit and no \<open>import_from_statement\<close> whose text contains both the module
  path and the name (which an import that really brings \<open>ToolStrategy\<close> in from
  \<open>langchain.agents.structured_output\<close> does). Without import statements in the file the
  insertion is at offset 0 and ends in two newlines; otherwise it is at the largest end
  offset of the import statements and starts with one newline. Import statements are
  taken to have a non-empty range.
\<close>

theorem tool_strategy_import_inserted_once:
  assumes "\<forall>n\<in>set (import_statements rootNode). 0 < endIndex n"
  shows "(let wraps = edits (rf_loop src (createAgentCalls src rootNode) rf_init);
              p = Max (insert 0 (endIndex ` set (import_statements rootNode))) in
          rf_all_edits src rootNode =
            wraps @
            (if wraps \<noteq> [] \<and> \<not> hasToolStrategyImport src rootNode then
               [if import_statements rootNode = []
                  then \<lparr>startPos = 0, endPos = 0,
                         insertedText = TOOL_STRATEGY_IMPORT @ [CHR 0x0A, CHR 0x0A]\<rparr>
                  else \<lparr>startPos = p, endPos = p,
                         insertedText = CHR 0x0A # TOOL_STRATEGY_IMPORT\<rparr>]
             else []) \<and>
          (\<forall>e\<in>set wraps. \<exists>c v. c \<in> set (createAgentCalls src rootNode) \<and>
              response_format_value src c = Some v \<and>
              e = replace v (''ToolStrategy('' @ text_of src v @ '')'')) \<and>
          (import_statements rootNode \<noteq> [] \<longrightarrow> 0 < p)) \<and>
         transform_response_format src rootNode =
           (if rf_all_edits src rootNode = [] then Unchanged
            else commit src (rf_all_edits src rootNode)) \<and>
         ((\<exists>n\<in>set (findAll (\<lambda>n. kind n = ''import_from_statement'') rootNode).
            \<exists>m c. field n ''module_name'' = Some m \<and> within m n \<and>
              text_of src m = ''langchain.agents.structured_output'' \<and>
              c \<in> set (children n) \<and> field_name c = Some ''name'' \<and> within c n \<and>
              text_of src c = ''ToolStrategy'') \<longrightarrow>
          hasToolStrategyImport src rootNode \<and>
          rf_all_edits src rootNode = edits (rf_loop src (createAgentCalls src rootNode) rf_init))"
proof -
  let ?cs = "createAgentCalls src rootNode"
  let ?wraps = "edits (rf_loop src ?cs rf_init)"
  let ?imps = "import_statements rootNode"
  let ?p = "Max (insert 0 (endIndex ` set ?imps))"
  have wraps: "?wraps = emitted (map (rf_body src) ?cs)"
    by (simp add: rf_loop_edits rf_init_def)
  have needs: "needsImport (rf_loop src ?cs rf_init) \<longleftrightarrow> ?wraps \<noteq> []"
    by (simp add: rf_loop_needsImport rf_loop_edits rf_init_def)
  have pos: "0 < ?p" if ne: "?imps \<noteq> []"
  proof -
    obtain n where n: "n \<in> set ?imps" using ne by (cases ?imps) auto
    then have "endIndex n \<le> ?p" by simp
    moreover have "0 < endIndex n" using assms n by blast
    ultimately show ?thesis by linarith
  qed
  have ins: "findImportInsertPosition rootNode = (if ?imps = [] then 0 else ?p)"
    by (simp add: findImportInsertPosition_def import_statements_def Let_def lastImportEnd_loop_Max)
  have all: "rf_all_edits src rootNode =
      ?wraps @
      (if ?wraps \<noteq> [] \<and> \<not> hasToolStrategyImport src rootNode then
         [if ?imps = []
            then \<lparr>startPos = 0, endPos = 0,
                   insertedText = TOOL_STRATEGY_IMPORT @ [CHR 0x0A, CHR 0x0A]\<rparr>
            else \<lparr>startPos = ?p, endPos = ?p,
                   insertedText = CHR 0x0A # TOOL_STRATEGY_IMPORT\<rparr>]
       else [])"
  proof (cases "?imps = []")
    case True
    then show ?thesis
      using needs
      by (simp add: rf_all_edits_def rf_import_edit_def Let_def ins flip: rf_init_def)
  next
    case False
    then show ?thesis
      using needs pos
      by (simp add: rf_all_edits_def rf_import_edit_def Let_def ins flip: rf_init_def)
  qed
  have shape: "\<forall>e\<in>set ?wraps. \<exists>c v. c \<in> set ?cs \<and> response_format_value src c = Some v \<and>
              e = replace v (''ToolStrategy('' @ text_of src v @ '')'')"
    unfolding wraps using rf_emitted_shape [of _ src ?cs] by blast
  have tr: "transform_response_format src rootNode =
           (if rf_all_edits src rootNode = [] then Unchanged
            else commit src (rf_all_edits src rootNode))"
    by (simp add: transform_response_format_def rf_all_edits_def Let_def flip: rf_init_def)
  have real: "hasToolStrategyImport src rootNode"
    if "n \<in> set (findAll (\<lambda>n. kind n = ''import_from_statement'') rootNode)"
      "within m n" "text_of src m = ''langchain.agents.structured_output''"
      "within c n" "text_of src c = ''ToolStrategy''" for n m c
  proof -
    have "includes_str (text_of src n) ''langchain.agents.structured_output''"
      using includes_text_within [OF that(2), of src] that(3) by simp
    moreover have "includes_str (text_of src n) ''ToolStrategy''"
      using includes_text_within [OF that(4), of src] that(5) by simp
    ultimately show ?thesis
      using that(1) unfolding hasToolStrategyImport_def list_ex_iff by blast
  qed
  have real': "hasToolStrategyImport src rootNode \<Longrightarrow> rf_all_edits src rootNode = ?wraps"
    using all by simp
  show ?thesis
    unfolding Let_def using all shape pos tr real real' by blast
qed

theorem tool_strategy_import_inserted_once_witness:
  "rf_all_edits tuple_and_plain_src tuple_and_plain_tree =
     edits (rf_loop tuple_and_plain_src
              (createAgentCalls tuple_and_plain_src tuple_and_plain_tree) rf_init) @
     [\<lparr>startPos = 9, endPos = 9, insertedText = CHR 0x0A # TOOL_STRATEGY_IMPORT\<rparr>] \<and>
   hasToolStrategyImport has_import_src has_import_tree \<and>
   rf_all_edits has_import_src has_import_tree =
     edits (rf_loop has_import_src (createAgentCalls has_import_src has_import_tree) rf_init)"
proof -
  let ?s = tuple_and_plain_src and ?t = tuple_and_plain_tree
  have wf: "\<forall>n\<in>set (import_statements ?t). 0 < endIndex n"
    by code_simp
  have a: "edits (rf_loop ?s (createAgentCalls ?s ?t) rf_init) \<noteq> []"
    "\<not> hasToolStrategyImport ?s ?t" "import_statements ?t \<noteq> []"
    "Max (insert 0 (endIndex ` set (import_statements ?t))) = 9"
    by code_simp+
  let ?s' = has_import_src and ?t' = has_import_tree
  have wf': "\<forall>n\<in>set (import_statements ?t'). 0 < endIndex n"
    by code_simp
  have b: "list_ex (\<lambda>n. case field n ''module_name'' of None \<Rightarrow> False
       | Some m \<Rightarrow> within m n \<and> text_of ?s' m = ''langchain.agents.structured_output'' \<and>
           list_ex (\<lambda>c. field_name c = Some ''name'' \<and> within c n \<and>
                      text_of ?s' c = ''ToolStrategy'') (children n))
     (findAll (\<lambda>n. kind n = ''import_from_statement'') ?t')"
    by code_simp
  then have b': "\<exists>n\<in>set (findAll (\<lambda>n. kind n = ''import_from_statement'') ?t').
            \<exists>m c. field n ''module_name'' = Some m \<and> within m n \<and>
              text_of ?s' m = ''langchain.agents.structured_output'' \<and>
              c \<in> set (children n) \<and> field_name c = Some ''name'' \<and> within c n \<and>
              text_of ?s' c = ''ToolStrategy''"
    unfolding list_ex_iff by (fastforce split: option.splits)
  show ?thesis
    using tool_strategy_import_inserted_once [OF wf, of ?s] a
      tool_strategy_import_inserted_once [OF wf', of ?s'] b'
    by (simp add: Let_def)
qed

lemma chain_bounds: "chain cur es \<Longrightarrow> e \<in> set es \<Longrightarrow> cur \<le> startPos e \<and> startPos e \<le> endPos e"
proof (induction es arbitrary: cur)
  case Nil
  then show ?case by simp
next
  case (Cons a es)
  then show ?case by (auto dest!: Cons.IH [of "endPos a"]) 
qed

lemma chain_of_sorted:
  assumes "\<not> overlapping es" "\<forall>e\<in>set es. startPos e \<le> endPos e"
    "es \<noteq> [] \<longrightarrow> cur \<le> startPos (hd es)"
  shows "chain cur es"
  using assms
proof (induction es arbitrary: cur)
  case Nil
  then show ?case by simp
next
  case (Cons a es)
  show ?case
  proof (cases es)
    case Nil
    with Cons.prems show ?thesis by simp
  next
    case (Cons b es')
    with Cons.prems have "\<not> overlapping es" "\<forall>e\<in>set es. startPos e \<le> endPos e"
      "es \<noteq> [] \<longrightarrow> endPos a \<le> startPos (hd es)"
      by auto
    then have "chain (endPos a) es" by (rule Cons.IH)
    with Cons.prems show ?thesis by simp
  qed
qed

lemma walk_frame:
  assumes "chain cur es" "\<forall>e\<in>set es. endPos e \<le> length src"
    "\<forall>e\<in>set es. length (insertedText e) = (endPos e - startPos e) + k"
    "cur \<le> i" "i < length src" "\<forall>e\<in>set es. \<not> (startPos e \<le> i \<and> i < endPos e)"
  shows "walk src cur es ! (i - cur + k * length (filter (\<lambda>e. endPos e \<le> i) es)) = src ! i"
  using assms
proof (induction es arbitrary: cur)
  case Nil
  then show ?case by simp
next
  case (Cons e es)
  have ch: "cur \<le> startPos e" "startPos e \<le> endPos e" "chain (endPos e) es"
    using Cons.prems(1) by simp_all
  have bd: "endPos e \<le> length src" using Cons.prems(2) by simp
  have len: "length (insertedText e) = (endPos e - startPos e) + k" using Cons.prems(3) by simp
  have l: "length (slice src cur (startPos e)) = startPos e - cur"
    using ch bd by (simp add: slice_length)
  have p2: "\<forall>e\<in>set es. endPos e \<le> length src" using Cons.prems(2) by simp
  have p3: "\<forall>e\<in>set es. length (insertedText e) = (endPos e - startPos e) + k"
    using Cons.prems(3) by simp
  have p6: "\<forall>e\<in>set es. \<not> (startPos e \<le> i \<and> i < endPos e)" using Cons.prems(6) by simp
  have out: "\<not> (startPos e \<le> i \<and> i < endPos e)" using Cons.prems(6) by simp
  show ?case
  proof (cases "i < startPos e")
    case True
    have "\<forall>e'\<in>set es. \<not> endPos e' \<le> i"
    proof
      fix e' assume "e' \<in> set es"
      from chain_bounds [OF ch(3) this] ch(2) True show "\<not> endPos e' \<le> i" by linarith
    qed
    then have z: "filter (\<lambda>e. endPos e \<le> i) es = []"
      by (simp add: filter_empty_conv)
    have ne: "\<not> endPos e \<le> i" using True ch(2) by linarith
    have f: "filter (\<lambda>e. endPos e \<le> i) (e # es) = []"
      using ne z by simp
    have lt: "i - cur < length (slice src cur (startPos e))"
      unfolding l using True Cons.prems(4) by linarith
    have "walk src cur (e # es) ! (i - cur) = slice src cur (startPos e) ! (i - cur)"
      using lt by (simp only: walk.simps nth_append if_True)
    also have "\<dots> = src ! i"
      using Cons.prems(4) True ch bd by (intro slice_nth) linarith+
    finally show ?thesis
      by (simp only: f list.size mult_0_right add_0_right)
  next
    case False
    then have ge: "endPos e \<le> i" using out by linarith
    have ih: "walk src (endPos e) es ! (i - endPos e + k * length (filter (\<lambda>e. endPos e \<le> i) es)) = src ! i"
      by (rule Cons.IH [OF ch(3) p2 p3 ge Cons.prems(5) p6])
    let ?c = "length (filter (\<lambda>e. endPos e \<le> i) es)"
    let ?j = "i - endPos e + k * ?c"
    have f: "filter (\<lambda>e. endPos e \<le> i) (e # es) = e # filter (\<lambda>e. endPos e \<le> i) es"
      using ge by simp
    have idx: "i - cur + k * length (filter (\<lambda>e. endPos e \<le> i) (e # es)) =
        length (slice src cur (startPos e)) + (length (insertedText e) + ?j)"
    proof -
      have "i - cur = (startPos e - cur) + (endPos e - startPos e) + (i - endPos e)"
        using ch ge Cons.prems(4) by linarith
      then show ?thesis
        by (simp only: f l len length_Cons mult_Suc_right)
    qed
    have "walk src cur (e # es) ! (length (slice src cur (startPos e)) +
            (length (insertedText e) + ?j)) = walk src (endPos e) es ! ?j"
      by (simp only: walk.simps nth_append_length_plus)
    then have "walk src cur (e # es) ! (i - cur + k * length (filter (\<lambda>e. endPos e \<le> i) (e # es))) =
        walk src (endPos e) es ! ?j"
      by (simp only: idx)
    then show ?thesis
      using ih by (rule trans)
  qed
qed

lemma walk_length:
  assumes "chain cur es" "\<forall>e\<in>set es. endPos e \<le> length src"
    "\<forall>e\<in>set es. length (insertedText e) = (endPos e - startPos e) + k" "cur \<le> length src"
  shows "length (walk src cur es) = length src - cur + k * length es"
  using assms
proof (induction es arbitrary: cur)
  case Nil
  then show ?case by simp
next
  case (Cons e es)
  have ch: "cur \<le> startPos e" "startPos e \<le> endPos e" "chain (endPos e) es"
    using Cons.prems(1) by simp_all
  have bd: "endPos e \<le> length src" using Cons.prems(2) by simp
  have ih: "length (walk src (endPos e) es) = length src - endPos e + k * length es"
    using Cons.IH [OF ch(3)] Cons.prems bd by simp
  have len: "length (insertedText e) = (endPos e - startPos e) + k" using Cons.prems(3) by simp
  have l: "length (slice src cur (startPos e)) = startPos e - cur"
    using ch bd by (simp add: slice_length)
  have "length (walk src cur (e # es)) =
      (startPos e - cur) + ((endPos e - startPos e) + k) + (length src - endPos e + k * length es)"
    by (simp only: walk.simps length_append l len ih add.assoc)
  also have "\<dots> = length src - cur + k * length (e # es)"
    using ch bd by simp
  finally show ?case .
qed

lemma ps_body_Emit:
  assumes "ps_body d src r c = Emit e"
  shows "\<exists>argList kwArg nameNode. field c ''arguments'' = Some argList \<and>
      kwArg \<in> set (findAll (\<lambda>n. kind n = ''keyword_argument'') argList) \<and>
      field kwArg ''name'' = Some nameNode \<and> text_of src nameNode = ''prompt'' \<and>
      \<not> has_keyword src ''system_prompt'' argList \<and>
      e = replace nameNode ''system_prompt''"
proof -
  from assms obtain f where f: "field c ''function'' = Some f"
    by (auto simp: ps_body_def split: option.splits)
  from assms f obtain argList where a: "field c ''arguments'' = Some argList"
    by (auto simp: ps_body_def split: option.splits if_splits)
  let ?ks = "findAll (\<lambda>n. kind n = ''keyword_argument'') argList"
  obtain p h where sc: "ps_scan src ?ks (None, False) = (p, h)"
    by (cases "ps_scan src ?ks (None, False)")
  from assms f a sc obtain k where k: "p = Some k" "\<not> h"
    by (auto simp: ps_body_def split: option.splits if_splits)
  from assms f a sc k obtain nm where nm: "field k ''name'' = Some nm" "e = replace nm ''system_prompt''"
    by (auto simp: ps_body_def split: option.splits if_splits)
  have "fst (ps_scan src ?ks (None, False)) = Some k" using sc k by simp
  from ps_scan_fst_Some [OF this] have km: "k \<in> set ?ks" "keyword_named src ''prompt'' k"
    by simp_all
  have "text_of src nm = ''prompt''"
    using km(2) nm(1) by (simp add: keyword_named_def)
  moreover have "\<not> has_keyword src ''system_prompt'' argList"
    using ps_scan_snd [of src ?ks "(None, False)"] sc k by (simp add: has_keyword_def)
  ultimately show ?thesis
    using a km(1) nm by blast
qed

lemma ps_edits_shape:
  assumes "e \<in> set (ps_edits d src r)"
  shows "\<exists>c argList kwArg nameNode. c \<in> set (agentCalls src r) \<and>
      field c ''arguments'' = Some argList \<and>
      kwArg \<in> set (findAll (\<lambda>n. kind n = ''keyword_argument'') argList) \<and>
      field kwArg ''name'' = Some nameNode \<and> text_of src nameNode = ''prompt'' \<and>
      \<not> has_keyword src ''system_prompt'' argList \<and>
      e = replace nameNode ''system_prompt''"
proof -
  from assms obtain c where c: "c \<in> set (agentCalls src r)" "ps_body d src r c = Emit e"
    by (auto simp: ps_edits_def ps_loop_edits emitted_mem)
  from ps_body_Emit [OF c(2)] c(1) show ?thesis by blast
qed

lemma commitEdits_Inr:
  assumes "commitEdits src es = Inr t"
  shows "t = walk src 0 (sort_key startPos es) \<and> chain 0 (sort_key startPos es) \<and>
         (\<forall>e\<in>set es. startPos e \<le> endPos e \<and> endPos e \<le> length src)"
proof -
  let ?s = "sort_key startPos es"
  from assms have a: "\<not> list_ex (\<lambda>e. endPos e < startPos e \<or> length src < endPos e) ?s"
    "\<not> overlapping ?s" "t = walk src 0 ?s"
    by (auto simp: commitEdits_def Let_def split: if_splits)
  from a(1) have b: "\<forall>e\<in>set es. startPos e \<le> endPos e \<and> endPos e \<le> length src"
    by (auto simp: list_ex_iff not_less)
  then have "\<forall>e\<in>set ?s. startPos e \<le> endPos e" by simp
  from chain_of_sorted [OF a(2) this, of 0] have "chain 0 ?s" by simp
  with a(3) b show ?thesis by blast
qed

text \<open>
  C9. In prompt-to-system-prompt every emitted edit covers exactly the range of the name
  identifier of a \<open>prompt=\<close> keyword argument of an agent-creation call and replaces it
  by \<open>system_prompt\<close>. When the edits are committed, every byte of the buffer outside
  these name ranges is copied through, in order: byte \<open>i\<close> lands seven places further
  for each renamed keyword that ends before it, and the text grows by seven bytes for
  each edit and by nothing else. So the value expression after the \<open>=\<close> and the sibling
  arguments are unchanged.
\<close>

theorem prompt_rename_touches_name_only:
  assumes "transform_prompt d src rootNode = Rewritten t"
  shows "(\<forall>e\<in>set (ps_edits d src rootNode).
            \<exists>c argList kwArg nameNode. c \<in> set (agentCalls src rootNode) \<and>
              field c ''arguments'' = Some argList \<and>
              kwArg \<in> set (findAll (\<lambda>n. kind n = ''keyword_argument'') argList) \<and>
              field kwArg ''name'' = Some nameNode \<and> text_of src nameNode = ''prompt'' \<and>
              e = \<lparr>startPos = startIndex nameNode, endPos = endIndex nameNode,
                    insertedText = ''system_prompt''\<rparr>) \<and>
         (\<forall>i<length src.
            (\<forall>e\<in>set (ps_edits d src rootNode). \<not> (startPos e \<le> i \<and> i < endPos e)) \<longrightarrow>
            t ! (i + 7 * length (filter (\<lambda>e. endPos e \<le> i) (ps_edits d src rootNode))) = src ! i) \<and>
         length t = length src + 7 * length (ps_edits d src rootNode)"
proof -
  let ?es = "ps_edits d src rootNode"
  let ?s = "sort_key startPos ?es"
  from assms have c: "commitEdits src ?es = Inr t"
    by (auto simp: transform_prompt_def Let_def commit_def split: if_splits sum.splits)
  from commitEdits_Inr [OF c] have t: "t = walk src 0 ?s" and ch: "chain 0 ?s"
    and bd: "\<forall>e\<in>set ?es. startPos e \<le> endPos e \<and> endPos e \<le> length src"
    by simp_all
  have shape: "\<forall>e\<in>set ?es.
            \<exists>c argList kwArg nameNode. c \<in> set (agentCalls src rootNode) \<and>
              field c ''arguments'' = Some argList \<and>
              kwArg \<in> set (findAll (\<lambda>n. kind n = ''keyword_argument'') argList) \<and>
              field kwArg ''name'' = Some nameNode \<and> text_of src nameNode = ''prompt'' \<and>
              e = \<lparr>startPos = startIndex nameNode, endPos = endIndex nameNode,
                    insertedText = ''system_prompt''\<rparr>"
  proof
    fix e assume "e \<in> set ?es"
    from ps_edits_shape [OF this] show "\<exists>c argList kwArg nameNode. c \<in> set (agentCalls src rootNode) \<and>
              field c ''arguments'' = Some argList \<and>
              kwArg \<in> set (findAll (\<lambda>n. kind n = ''keyword_argument'') argList) \<and>
              field kwArg ''name'' = Some nameNode \<and> text_of src nameNode = ''prompt'' \<and>
              e = \<lparr>startPos = startIndex nameNode, endPos = endIndex nameNode,
                    insertedText = ''system_prompt''\<rparr>"
      unfolding replace_def by blast
  qed
  have grow: "length (insertedText e) = (endPos e - startPos e) + 7" if e: "e \<in> set ?es" for e
  proof -
    from shape e obtain nm where nm: "text_of src nm = ''prompt''"
      "e = \<lparr>startPos = startIndex nm, endPos = endIndex nm, insertedText = ''system_prompt''\<rparr>"
      by blast
    from bd e nm(2) have b: "startIndex nm \<le> endIndex nm" "endIndex nm \<le> length src"
      by auto
    have "length (text_of src nm) = endIndex nm - startIndex nm"
      using b by (simp add: text_of_def slice_def)
    with nm(1) have "endIndex nm - startIndex nm = 6" by simp
    then show ?thesis by (simp add: nm(2))
  qed
  have p2: "\<forall>e\<in>set ?s. endPos e \<le> length src" using bd by simp
  have p3: "\<forall>e\<in>set ?s. length (insertedText e) = (endPos e - startPos e) + 7"
    using grow by simp
  have cnt: "length (filter P ?s) = length (filter P ?es)" for P
    by (simp add: filter_sort)
  have frame: "t ! (i + 7 * length (filter (\<lambda>e. endPos e \<le> i) ?es)) = src ! i"
    if i: "i < length src" and out: "\<forall>e\<in>set ?es. \<not> (startPos e \<le> i \<and> i < endPos e)" for i
  proof -
    have p6: "\<forall>e\<in>set ?s. \<not> (startPos e \<le> i \<and> i < endPos e)" using out by simp
    from walk_frame [OF ch p2 p3 _ i p6] show ?thesis
      unfolding t cnt by simp
  qed
  have "length t = length src + 7 * length ?es"
    using walk_length [OF ch p2 p3] unfolding t by simp
  with shape frame show ?thesis by blast
qed

theorem prompt_rename_touches_name_only_witness:
  "transform_prompt (\<lambda>n. None) both_prompts_src both_prompts_tree = Rewritten both_prompts_out \<and>
   length both_prompts_out =
     length both_prompts_src + 7 * length (ps_edits (\<lambda>n. None) both_prompts_src both_prompts_tree) \<and>
   both_prompts_out !
     (74 + 7 * length (filter (\<lambda>e. endPos e \<le> 74)
                         (ps_edits (\<lambda>n. None) both_prompts_src both_prompts_tree))) =
     both_prompts_src ! 74"
proof -
  let ?d = "\<lambda>n::node. None :: resolved option"
  have run: "transform_prompt ?d both_prompts_src both_prompts_tree = Rewritten both_prompts_out"
    by code_simp
  have i: "74 < length both_prompts_src"
    by code_simp
  have out: "\<forall>e\<in>set (ps_edits ?d both_prompts_src both_prompts_tree).
      \<not> (startPos e \<le> 74 \<and> 74 < endPos e)"
    by code_simp
  show ?thesis
    using prompt_rename_touches_name_only [OF run] run i out by blast
qed

section \<open>Pruning the import\<close>

text \<open>
  C1, on the code. In unwrap-tool-node-in-agent the file below names \<open>ToolNode\<close> twice
  outside its import: once in the call that the pass unwraps, once as an argument of
  \<open>isinstance\<close>. The count of usages sees calls of \<open>ToolNode\<close> only, so it finds one, the
  pass has rewritten one, and the import statement is removed although the name is
  still used in the result.
\<close>

theorem import_removed_while_symbol_still_used:
  "length (occurrences_outside_imports still_used_src still_used_tree ''ToolNode'') = 2 \<and>
   countToolNodeUsages still_used_src still_used_tree = 1 \<and>
   un_edits still_used_src still_used_tree =
     [\<lparr>startPos = 70, endPos = 81, insertedText = ''t''\<rparr>,
      \<lparr>startPos = 0, endPos = 40, insertedText = ''''\<rparr>] \<and>
   transform_unwrap still_used_src still_used_tree = Rewritten still_used_out \<and>
   includes_str still_used_out ''ToolNode'' \<and> \<not> includes_str still_used_out ''import''"
  by code_simp

section \<open>Removing a whole statement\<close>


lemma charAt_map: "charAt (map f s) i = map_option f (charAt s i)"
  by (simp add: charAt_def)









text \<open>
  Outside such files the offset of the statement end is not the index of the code unit
  after the statement. After two blank lines the root node starts at offset 2, and
  after a string with two characters of two bytes each the code units are two fewer
  than the bytes: in both files the index that is read lies two places further, past
  the two line feeds that follow the import, and the edit ends with the statement.
\<close>

lemma leading_blank_lines_shift_the_index:
  "text_of leading_blank_src leading_blank_tree \<noteq> leading_blank_src \<and>
   endIndex (hd (children leading_blank_tree)) = 41 \<and>
   newlines_at leading_blank_src 41 2 = 2 \<and>
   createImportRemovalEdit leading_blank_src leading_blank_tree 0 =
     Some \<lparr>startPos = 2, endPos = 41, insertedText = ''''\<rparr>"
  by code_simp

lemma non_ascii_text_shifts_the_index:
  "\<not> is_ascii non_ascii_src \<and>
   endIndex (children non_ascii_tree ! 1) = 50 \<and>
   newlines_at non_ascii_src 50 2 = 2 \<and>
   createImportRemovalEdit non_ascii_src non_ascii_tree 0 =
     Some \<lparr>startPos = 11, endPos = 50, insertedText = ''''\<rparr>"
  by code_simp

section \<open>Merging into a dictionary literal\<close>

lemma dict_has_key_found:
  assumes "dict_has_key src d ''example''"
  shows "find_first (pairWithExampleString src) d \<noteq> None"
proof -
  from assms obtain p s where p: "p \<in> set (children d)" "kind p = ''pair''"
    "field p ''key'' = Some s" "kind s = ''string''"
    "has_child src ''string_content'' (\<lambda>t. t = ''example'') s"
    by (auto simp: dict_has_key_def list_ex_iff split: option.splits)
  from field_in_children [OF p(3)] p(4,5) have "pairWithExampleString src p"
    unfolding pairWithExampleString_def list_ex_iff using p(2) by blast
  with child_in_dfs [OF p(1)] show ?thesis
    by (auto simp: find_first_None_iff)
qed

lemma am_loop_edits: "am_loop src cs es = es @ concat (map (am_body src) cs)"
  by (induction cs arbitrary: es) auto

text \<open>
  C4. When the \<open>additional_kwargs\<close> argument of an \<open>AIMessage\<close> call is a dictionary
  literal that has the key \<open>"example"\<close> already, the planner declines: the call yields no
  edit, so the edits of the file are those of the other calls, and when no call yields
  an edit the result is the unchanged sentinel.
\<close>

theorem merge_declined_when_key_present:
  assumes "field call ''arguments'' = Some argList"
    and "find_first (keywordWithIdentifier src ''additional_kwargs'') argList = Some additionalKwargsArg"
    and "getKeywordArgumentValue src additionalKwargsArg = Some d"
    and "kind d = ''dictionary''"
    and "dict_has_key src d ''example''"
  shows "am_body src call = [] \<and>
         am_loop src (cs1 @ call # cs2) es = am_loop src (cs1 @ cs2) es \<and>
         ((\<forall>c\<in>set (aiMessageCalls src rootNode). am_body src c = []) \<longrightarrow>
            transform_aimessage src rootNode = Unchanged)"
proof -
  have nn: "find_first (pairWithExampleString src) d \<noteq> None"
    using assms(5) by (rule dict_has_key_found)
  have a: "am_body src call = []"
    using assms(1-4) nn by (auto simp: am_body_def Let_def split: option.splits)
  have b: "am_loop src (cs1 @ call # cs2) es = am_loop src (cs1 @ cs2) es"
    by (simp add: am_loop_edits a)
  have c: "transform_aimessage src rootNode = Unchanged"
    if "\<forall>c\<in>set (aiMessageCalls src rootNode). am_body src c = []"
    using that by (simp add: transform_aimessage_def Let_def am_loop_edits)
  from a b c show ?thesis by blast
qed

theorem merge_declined_when_key_present_witness:
  "am_body key_present_src (hd (aiMessageCalls key_present_src key_present_tree)) = [] \<and>
   transform_aimessage key_present_src key_present_tree = Unchanged"
proof -
  let ?s = key_present_src and ?t = key_present_tree
  let ?c = "hd (aiMessageCalls ?s ?t)"
  have "length (aiMessageCalls ?s ?t) = 1"
    by code_simp
  then have calls: "\<forall>c\<in>set (aiMessageCalls ?s ?t). c = ?c"
    by (cases "aiMessageCalls ?s ?t") auto
  let ?argList = "the (field ?c ''arguments'')"
  let ?a = "the (find_first (keywordWithIdentifier ?s ''additional_kwargs'') ?argList)"
  let ?d = "the (getKeywordArgumentValue ?s ?a)"
  have "field ?c ''arguments'' \<noteq> None"
    "find_first (keywordWithIdentifier ?s ''additional_kwargs'') ?argList \<noteq> None"
    "getKeywordArgumentValue ?s ?a \<noteq> None"
    by code_simp+
  then have h: "field ?c ''arguments'' = Some ?argList"
    "find_first (keywordWithIdentifier ?s ''additional_kwargs'') ?argList = Some ?a"
    "getKeywordArgumentValue ?s ?a = Some ?d"
    by simp_all
  have k: "kind ?d = ''dictionary''" "dict_has_key ?s ?d ''example''"
    by code_simp+
  note th = merge_declined_when_key_present [OF h k, of "[]" "[]" "[]" ?t]
  have "\<forall>c\<in>set (aiMessageCalls ?s ?t). am_body ?s c = []"
  proof
    fix c assume "c \<in> set (aiMessageCalls ?s ?t)"
    with calls have "c = ?c" by blast
    with th show "am_body ?s c = []" by simp
  qed
  with th show ?thesis
    by blast
qed

section \<open>Merging when the key is absent\<close>

text \<open>
  C5, on the code. In aimessage-example-to-kwargs the test that guards the merge, by
  its comment a test whether the key \<open>"example"\<close> exists already, matches every pair
  with a string \<open>"example"\<close> as a child, as a key or as a value. The dictionary
  \<open>{"foo": "example"}\<close> does not contain the key, and yet no entry is merged into it:
  the call yields no edit and the file is returned unchanged, with its \<open>example=\<close>
  argument still there. And the test for an empty dictionary looks at the text between
  the braces: the dictionary that holds a comment only has no entry, and yet the new
  entry is written with a comma and the comment after it, so the closing brace is now
  part of the comment.
\<close>

theorem merge_declined_for_example_value:
  "(let call = hd (aiMessageCalls value_example_src value_example_tree);
        argList = the (field call ''arguments'');
        d = the (getKeywordArgumentValue value_example_src
                   (the (find_first (keywordWithIdentifier value_example_src ''additional_kwargs'')
                           argList)))
    in kind d = ''dictionary'' \<and>
       text_of value_example_src d =
         ''{'' @ [CHR 0x22] @ ''foo'' @ [CHR 0x22] @ '': '' @ [CHR 0x22] @ ''example'' @
         [CHR 0x22] @ ''}'' \<and>
       \<not> dict_has_key value_example_src d ''example'' \<and>
       find_first (pairWithExampleString value_example_src) d \<noteq> None \<and>
       am_body value_example_src call = []) \<and>
   transform_aimessage value_example_src value_example_tree = Unchanged \<and>
   (let call = hd (aiMessageCalls comment_dict_src comment_dict_tree);
        argList = the (field call ''arguments'');
        d = the (getKeywordArgumentValue comment_dict_src
                   (the (find_first (keywordWithIdentifier comment_dict_src ''additional_kwargs'')
                           argList)))
    in kind d = ''dictionary'' \<and>
       filter (\<lambda>c. kind c = ''pair'') (children d) = [] \<and>
       hd (am_body comment_dict_src call) =
         replace d (''{'' @ [CHR 0x22] @ ''example'' @ [CHR 0x22] @ '': True, # c}'')) \<and>
   transform_aimessage comment_dict_src comment_dict_tree = Rewritten comment_dict_out"
  by code_simp

section \<open>A second pass\<close>

lemma startsWith_prefix: "startsWith s (p @ q) \<Longrightarrow> startsWith s p"
  by (induction s p rule: startsWith.induct) auto

lemma startsWith_drop: "startsWith s p \<Longrightarrow> s = p @ drop (length p) s"
  by (induction s p rule: startsWith.induct) auto

lemma ci_loop_edits: "ci_loop src ns es = es @ List.map_filter (ci_body src) ns"
  by (induction ns arbitrary: es) (auto split: option.splits)

lemma finalModuleName_migrated:
  assumes "m = ''langchain'' \<or> startsWith m ''langchain.''"
  shows "finalModuleName m = ''langchain_classic'' \<or>
         startsWith (finalModuleName m) ''langchain_classic.''"
proof (cases "m = ''langchain''")
  case True
  then show ?thesis by (simp add: finalModuleName_def)
next
  case False
  with assms have s: "startsWith m ''langchain.''" by simp
  have "startsWith (''langchain_classic.'' @ drop (length ''langchain.'') m) ''langchain_classic.''"
    by (rule startsWith_append)
  with s False show ?thesis
    by (simp only: finalModuleName_def Let_def if_True if_False) simp
qed

lemma legacy_module_prefix:
  assumes "isLegacyModuleImport src n" "field n ''module_name'' = Some m"
  shows "startsWith (text_of src m) ''langchain.''"
proof -
  let ?t = "text_of src m"
  from assms have "?t = ''langchain.'' @ ''retrievers'' \<or>
      startsWith ?t (''langchain.'' @ (''retrievers'' @ ''.'')) \<or>
      ?t = ''langchain.'' @ ''indexes'' \<or>
      startsWith ?t (''langchain.'' @ (''indexes'' @ ''.''))"
    by (simp add: isLegacyModuleImport_def)
  then show ?thesis
    using startsWith_prefix [of ?t "''langchain.''"] startsWith_append [of "''langchain.''"]
    by metis
qed

lemma ci_body_Some:
  assumes "ci_body src n = Some e"
  shows "\<exists>m. field n ''module_name'' = Some m \<and> startPos e = startIndex m \<and>
           endPos e = endIndex m \<and>
           (insertedText e = ''langchain_classic'' \<or>
            startsWith (insertedText e) ''langchain_classic.'')"
proof -
  from assms have k: "isHubImport src n \<or> isLegacyModuleImport src n"
    and c: "createImportEdit src n = Some e"
    by (auto simp: ci_body_def split: if_splits)
  from c obtain m where m: "field n ''module_name'' = Some m"
    "e = \<lparr>startPos = startIndex m, endPos = endIndex m,
          insertedText = finalModuleName (text_of src m)\<rparr>"
    by (auto simp: createImportEdit_def split: option.splits)
  have "text_of src m = ''langchain'' \<or> startsWith (text_of src m) ''langchain.''"
  proof (cases "isHubImport src n")
    case True
    with m(1) show ?thesis
      by (auto simp: isHubImport_def split: if_splits)
  next
    case False
    with k have "isLegacyModuleImport src n" by simp
    from legacy_module_prefix [OF this m(1)] show ?thesis by simp
  qed
  from finalModuleName_migrated [OF this] m show ?thesis by simp
qed

lemma ci_body_migrated:
  assumes "field n ''module_name'' = Some m"
    and "text_of src m = ''langchain_classic'' \<or> startsWith (text_of src m) ''langchain_classic.''"
  shows "ci_body src n = None"
  using assms by (auto simp: ci_body_def isAlreadyMigrated_def)

lemma rf_body_value:
  "rf_body src c =
     (case response_format_value src c of
        None \<Rightarrow> Skip
      | Some v \<Rightarrow>
          if isTupleForm v then Warn
          else if isAlreadyWrapped src v then Skip
          else Emit (replace v (''ToolStrategy('' @ text_of src v @ '')'')))"
  by (simp add: rf_body_def response_format_value_def split: option.splits)

lemma slice_prefix:
  assumes "slice s a b = p @ q"
  shows "slice s a (a + length p) = p"
proof -
  from assms have t: "take (b - a) (drop a s) = p @ q"
    by (simp add: slice_def)
  then have "length p \<le> b - a"
    by (metis length_append length_take min.cobounded2 le_add1 le_trans)
  then have "take (length p) (take (b - a) (drop a s)) = take (length p) (drop a s)"
    by (simp add: min_def)
  with t show ?thesis
    by (simp add: slice_def)
qed

lemma rf_site_rewritten_Skip:
  assumes "rf_body src c = Emit e" "rf_site_rewritten e src' c'"
  shows "rf_body src' c' = Skip"
proof -
  from rf_body_Emit [OF assms(1)] obtain v where
    e: "e = replace v (''ToolStrategy('' @ text_of src v @ '')'')"
    by blast
  from assms(2) obtain v' f' where v': "response_format_value src' c' = Some v'"
    "kind v' = ''call''" "text_of src' v' = insertedText e"
    "field v' ''function'' = Some f'" "startIndex f' = startIndex v'"
    "endIndex f' = startIndex v' + length ''ToolStrategy''"
    by (auto simp: rf_site_rewritten_def split: option.splits)
  have "slice src' (startIndex v') (endIndex v') =
      ''ToolStrategy'' @ (''('' @ text_of src v @ '')'')"
    using v'(3) unfolding e by (simp add: text_of_def replace_def)
  from slice_prefix [OF this] have "text_of src' f' = ''ToolStrategy''"
    unfolding text_of_def v'(5,6) .
  then have "isAlreadyWrapped src' v'" "\<not> isTupleForm v'"
    using v'(2,4) by (simp_all add: isAlreadyWrapped_def isTupleForm_def)
  with v'(1) show ?thesis
    by (simp add: rf_body_value)
qed

lemma rf_site_kept_no_edit:
  assumes "rf_body src c = Skip \<or> rf_body src c = Warn" "rf_site_kept src c src' c'"
  shows "rf_body src' c' = Skip \<or> rf_body src' c' = Warn"
proof (cases "response_format_value src c")
  case None
  with assms(2) have "response_format_value src' c' = None"
    by (simp add: rf_site_kept_def)
  then show ?thesis by (simp add: rf_body_value)
next
  case (Some v)
  with assms(2) obtain v' where v': "response_format_value src' c' = Some v'"
    "kind v' = kind v"
    "map_option (text_of src') (field v' ''function'') =
     map_option (text_of src) (field v ''function'')"
    by (auto simp: rf_site_kept_def split: option.splits)
  have t: "isTupleForm v' = isTupleForm v"
    using v'(2) by (simp add: isTupleForm_def)
  have w: "isAlreadyWrapped src' v' = isAlreadyWrapped src v"
    using v'(2,3) unfolding isAlreadyWrapped_def
    by (cases "field v ''function''"; cases "field v' ''function''") simp_all
  from assms(1) Some have "isTupleForm v \<or> isAlreadyWrapped src v"
    by (auto simp: rf_body_value split: if_splits)
  with t w v'(1) show ?thesis
    by (auto simp: rf_body_value)
qed

lemma rf_second_parse_no_edit:
  assumes "list_all2 (\<lambda>c c'. case rf_body src c of
                    Emit e \<Rightarrow> rf_site_rewritten e src' c'
                  | Skip \<Rightarrow> rf_site_kept src c src' c'
                  | Warn \<Rightarrow> rf_site_kept src c src' c') cs cs'"
  shows "\<forall>c'\<in>set cs'. rf_body src' c' = Skip \<or> rf_body src' c' = Warn"
  using assms
proof (induction rule: list_all2_induct)
  case Nil
  then show ?case by simp
next
  case (Cons c cs c' cs')
  have "rf_body src' c' = Skip \<or> rf_body src' c' = Warn"
  proof (cases "rf_body src c")
    case Skip
    with Cons.hyps(1) rf_site_kept_no_edit [of src c src' c'] show ?thesis by simp
  next
    case Warn
    with Cons.hyps(1) rf_site_kept_no_edit [of src c src' c'] show ?thesis by simp
  next
    case (Emit e)
    with Cons.hyps(1) rf_site_rewritten_Skip [of src c e src' c'] show ?thesis by simp
  qed
  with Cons.IH show ?case by simp
qed

lemma ci_site_kept_None:
  assumes "ci_body src n = None" "ci_site_kept src n src' n'"
  shows "ci_body src' n' = None"
proof -
  from assms(2) have m: "map_option (text_of src') (field n' ''module_name'') =
      map_option (text_of src) (field n ''module_name'')"
    and k: "map (text_of src') (fieldChildren n' ''name'') =
      map (text_of src) (fieldChildren n ''name'')"
    by (simp_all add: ci_site_kept_def)
  have ex: "list_ex (\<lambda>x. P (text_of src' x)) (fieldChildren n' ''name'') =
      list_ex (\<lambda>x. P (text_of src x)) (fieldChildren n ''name'')" for P
  proof -
    have "list_ex (\<lambda>x. P (text_of s x)) xs = list_ex P (map (text_of s) xs)" for s xs
      by (induction xs) simp_all
    then show ?thesis using k by simp
  qed
  have a: "isAlreadyMigrated src' n' = isAlreadyMigrated src n"
    using m unfolding isAlreadyMigrated_def
    by (cases "field n ''module_name''"; cases "field n' ''module_name''") simp_all
  have h: "isHubImport src' n' = isHubImport src n"
    using m ex [of "\<lambda>t. t = ''hub'' \<or> startsWith t ''hub ''"] unfolding isHubImport_def
    by (cases "field n ''module_name''"; cases "field n' ''module_name''") simp_all
  have l: "isLegacyModuleImport src' n' = isLegacyModuleImport src n"
    using m unfolding isLegacyModuleImport_def
    by (cases "field n ''module_name''"; cases "field n' ''module_name''") simp_all
  have c: "field n ''module_name'' \<noteq> None \<Longrightarrow> createImportEdit src n \<noteq> None"
    by (auto simp: createImportEdit_def)
  have f: "\<not> isHubImport src n \<and> \<not> isLegacyModuleImport src n"
    if "\<not> isAlreadyMigrated src n"
  proof -
    from assms(1) that have "isHubImport src n \<or> isLegacyModuleImport src n \<Longrightarrow>
        createImportEdit src n = None"
      by (simp add: ci_body_def)
    moreover have "isHubImport src n \<or> isLegacyModuleImport src n \<Longrightarrow>
        field n ''module_name'' \<noteq> None"
      by (auto simp: isHubImport_def isLegacyModuleImport_def split: option.splits)
    ultimately show ?thesis using c by blast
  qed
  show ?thesis
    using f by (auto simp: ci_body_def a h l)
qed

lemma ci_site_rewritten_None:
  assumes "ci_body src n = Some e" "ci_site_rewritten e src' n'"
  shows "ci_body src' n' = None"
proof -
  from ci_body_Some [OF assms(1)] have i: "insertedText e = ''langchain_classic'' \<or>
      startsWith (insertedText e) ''langchain_classic.''"
    by blast
  from assms(2) obtain m' where m': "field n' ''module_name'' = Some m'"
    and t: "text_of src' m' = insertedText e"
    by (auto simp: ci_site_rewritten_def split: option.splits)
  have "text_of src' m' = ''langchain_classic'' \<or>
      startsWith (text_of src' m') ''langchain_classic.''"
    unfolding t using i .
  with m' show ?thesis
    by (rule ci_body_migrated)
qed

lemma ci_second_parse_no_edit:
  assumes "list_all2 (\<lambda>n n'. case ci_body src n of
                    Some e \<Rightarrow> ci_site_rewritten e src' n'
                  | None \<Rightarrow> ci_site_kept src n src' n') ns ns'"
  shows "\<forall>n'\<in>set ns'. ci_body src' n' = None"
  using assms
proof (induction rule: list_all2_induct)
  case Nil
  then show ?case by simp
next
  case (Cons n ns n' ns')
  have "ci_body src' n' = None"
  proof (cases "ci_body src n")
    case None
    with Cons.hyps(1) ci_site_kept_None [of src n src' n'] show ?thesis by simp
  next
    case (Some e)
    with Cons.hyps(1) ci_site_rewritten_None [of src n e src' n'] show ?thesis by simp
  qed
  with Cons.IH show ?case by simp
qed

text \<open>
  C6, as amended. For response-format-tool-strategy and langchain-classic-imports,
  applying the rule twice yields the same result as applying it once. When a first pass
  has returned a new text and that text is parsed site by site as described above (a
  rewritten value as the call of \<open>ToolStrategy\<close> that the edit wrote, a rewritten
  import with the module name that the edit wrote, every other site as before), the
  detector finds no further match and the second pass returns the unchanged sentinel.
  The guards \<open>isAlreadyWrapped\<close> and \<open>isAlreadyMigrated\<close> skip what the first pass wrote,
  and a site that was skipped before is skipped again.
\<close>

theorem second_pass_returns_unchanged:
  "(transform_response_format src rootNode = Rewritten src' \<and>
    rf_second_parse src rootNode src' rootNode' \<longrightarrow>
      transform_response_format src' rootNode' = Unchanged) \<and>
   (transform_classic_imports src rootNode = Rewritten src' \<and>
    ci_second_parse src rootNode src' rootNode' \<longrightarrow>
      transform_classic_imports src' rootNode' = Unchanged)"
proof (intro conjI impI)
  assume "transform_response_format src rootNode = Rewritten src' \<and>
    rf_second_parse src rootNode src' rootNode'"
  then have "rf_second_parse src rootNode src' rootNode'"
    by blast
  then have "\<forall>c'\<in>set (createAgentCalls src' rootNode').
      rf_body src' c' = Skip \<or> rf_body src' c' = Warn"
    unfolding rf_second_parse_def by (rule rf_second_parse_no_edit)
  then have "emitted (map (rf_body src') (createAgentCalls src' rootNode')) = []"
    by (simp add: emitted_Nil_iff)
  then show "transform_response_format src' rootNode' = Unchanged"
    by (simp add: transform_response_format_def Let_def rf_loop_edits)
next
  assume "transform_classic_imports src rootNode = Rewritten src' \<and>
    ci_second_parse src rootNode src' rootNode'"
  then have "ci_second_parse src rootNode src' rootNode'"
    by blast
  then have "\<forall>n'\<in>set (findAll (\<lambda>n. kind n = ''import_from_statement'') rootNode').
      ci_body src' n' = None"
    unfolding ci_second_parse_def by (rule ci_second_parse_no_edit)
  then have "List.map_filter (ci_body src')
      (findAll (\<lambda>n. kind n = ''import_from_statement'') rootNode') = []"
    by (simp add: map_filter_Nil_iff)
  then show "transform_classic_imports src' rootNode' = Unchanged"
    by (simp add: transform_classic_imports_def Let_def ci_loop_edits)
qed

theorem second_pass_returns_unchanged_witness:
  "transform_response_format tuple_and_plain_src tuple_and_plain_tree =
     Rewritten tuple_and_plain_out_src \<and>
   rf_second_parse tuple_and_plain_src tuple_and_plain_tree
     tuple_and_plain_out_src tuple_and_plain_out_tree \<and>
   transform_response_format tuple_and_plain_out_src tuple_and_plain_out_tree = Unchanged \<and>
   transform_classic_imports legacy_mixed_src legacy_mixed_tree =
     Rewritten legacy_mixed_out_src \<and>
   ci_second_parse legacy_mixed_src legacy_mixed_tree legacy_mixed_out_src legacy_mixed_out_tree \<and>
   transform_classic_imports legacy_mixed_out_src legacy_mixed_out_tree = Unchanged"
proof -
  have r: "transform_response_format tuple_and_plain_src tuple_and_plain_tree =
      Rewritten tuple_and_plain_out_src"
    "rf_second_parse tuple_and_plain_src tuple_and_plain_tree
      tuple_and_plain_out_src tuple_and_plain_out_tree"
    by code_simp+
  have c: "transform_classic_imports legacy_mixed_src legacy_mixed_tree =
      Rewritten legacy_mixed_out_src"
    "ci_second_parse legacy_mixed_src legacy_mixed_tree legacy_mixed_out_src legacy_mixed_out_tree"
    by code_simp+
  note R = second_pass_returns_unchanged
    [where src = tuple_and_plain_src and rootNode = tuple_and_plain_tree
       and src' = tuple_and_plain_out_src and rootNode' = tuple_and_plain_out_tree,
     THEN conjunct1, THEN mp]
  note C = second_pass_returns_unchanged
    [where src = legacy_mixed_src and rootNode = legacy_mixed_tree
       and src' = legacy_mixed_out_src and rootNode' = legacy_mixed_out_tree,
     THEN conjunct2, THEN mp]
  have s1: "transform_response_format tuple_and_plain_out_src tuple_and_plain_out_tree = Unchanged"
    by (rule R) (intro conjI r)
  have s2: "transform_classic_imports legacy_mixed_out_src legacy_mixed_out_tree = Unchanged"
    by (rule C) (intro conjI c)
  show ?thesis
    by (intro conjI r c s1 s2)
qed

text \<open>
  C6 as stated fails for rules without such a guard. In text-method-to-property a first
  pass turns \<open>a.text()()\<close> into \<open>a.text()\<close>; a second pass over that text, parsed anew,
  finds a call of \<open>text\<close> without arguments again and turns it into \<open>a.text\<close>. In
  unwrap-tool-node-in-agent a first pass turns \<open>tools=ToolNode(ToolNode(t))\<close> into
  \<open>tools=ToolNode(t)\<close>, and a second pass turns that into \<open>tools=t\<close>.
\<close>

theorem second_pass_rewrites_again:
  "transform_text_method text_twice_src text_twice_tree = Rewritten text_once_src \<and>
   transform_text_method text_once_src text_once_tree = Rewritten text_none \<and>
   transform_text_method text_once_src text_once_tree \<noteq> Unchanged \<and>
   text_none \<noteq> text_once_src \<and>
   transform_unwrap nested_tool_src nested_tool_tree = Rewritten nested_tool_once_src \<and>
   transform_unwrap nested_tool_once_src nested_tool_once_tree = Rewritten nested_tool_none \<and>
   transform_unwrap nested_tool_once_src nested_tool_once_tree \<noteq> Unchanged \<and>
   nested_tool_none \<noteq> nested_tool_once_src"
  by code_simp

section \<open>Removing one element of a list\<close>



lemma items_append: "items src p (xs @ ys) = items src p xs @ items src (end_of p xs) ys"
  by (induction xs arbitrary: p) simp_all









lemma at_index_append:
  "at_index (pre @ xs) (int (length pre) + int k) = (if k < length xs then Some (xs ! k) else None)"
proof -
  have "nat (int (length pre) + int k) = length pre + k" by simp
  then show ?thesis
    by (simp add: at_index_def)
qed
















end
